theory Spec2Isabelle
  imports Complex_Main
begin

chapter \<open>Location lookup servers: a shallow embedding\<close>

text \<open>
  The repository holds two tool servers that resolve a place name: the locations server
  (five storage collections) and the older cities server (one collection). Both look the
  name up in a Firestore cache, query the Overpass API on a miss, enrich the first feature
  with Wikipedia and Wikidata, validate and persist it.

  Conventions of the embedding:
  \<^item> a JavaScript object with known keys is a record; a key that may be missing, null or
    undefined is an \<open>option\<close> field (null and undefined are both \<open>None\<close>: the code only
    tests them for truthiness or reads them through optional chaining);
  \<^item> a string is a \<open>string\<close>; the empty string is falsy; a number is the \<open>real\<close> value
    of a double, falsy when it is zero (JSON cannot carry NaN; where the code can produce
    NaN it is a separate constructor); the one arithmetic operation on numbers that the
    modelled code performs, the subtraction of two coordinates, rounds its result as
    binary64 arithmetic does;
  \<^item> a lookup \<open>table[key]\<close> in an object literal also finds the properties that every
    object inherits (\<open>constructor\<close>, \<open>toString\<close>, ...): for these keys the lookup gives a
    value that is truthy and is neither a string nor an array;
  \<^item> a thrown exception is the \<open>Inl\<close> of a sum; an \<open>async\<close> function that awaits its
    steps one after the other is the sequential composition of those steps;
  \<^item> the network, the clock and the identifier generator of the store live in a world
    of an arbitrary type \<open>'w\<close>: every call takes the world and returns the next one, and
    the model records the call in a trace.
\<close>

section \<open>Values, truthiness, errors\<close>

type_synonym tags = "string \<rightharpoonup> string"

definition bslash :: char where
  "bslash = CHR 0x5C"

definition dquote :: char where
  "dquote = CHR 0x22"

text \<open>Truthiness of a possibly missing string and of a possibly missing number.\<close>

definition truthy :: "string option \<Rightarrow> bool" where
  "truthy v = (case v of None \<Rightarrow> False | Some s \<Rightarrow> s \<noteq> [])"

definition truthy_num :: "real option \<Rightarrow> bool" where
  "truthy_num v = (case v of None \<Rightarrow> False | Some x \<Rightarrow> x \<noteq> 0)"

text \<open>\<open>if (v) f(v) else d\<close> for a possibly missing string \<open>v\<close>.\<close>

definition if_truthy :: "string option \<Rightarrow> (string \<Rightarrow> 'a) \<Rightarrow> 'a \<Rightarrow> 'a" where
  "if_truthy v f d = (case v of None \<Rightarrow> d | Some s \<Rightarrow> if s \<noteq> [] then f s else d)"

text \<open>\<open>a || b\<close> on possibly missing strings.\<close>

definition or_else :: "string option \<Rightarrow> string option \<Rightarrow> string option" where
  "or_else a b = (if truthy a then a else b)"

text \<open>
  A value read from a Wikidata claim or made by \<open>parseInt\<close>: a number, a string, or NaN.
\<close>

datatype jsval = JNum real | JStr string | JNaN

fun truthy_val :: "jsval option \<Rightarrow> bool" where
  "truthy_val None = False"
| "truthy_val (Some (JNum x)) = (x \<noteq> 0)"
| "truthy_val (Some (JStr s)) = (s \<noteq> [])"
| "truthy_val (Some JNaN) = False"

text \<open>An exception object: its \<open>name\<close>, its \<open>code\<close> (set by the network layer) and its message.\<close>

record js_error =
  err_name :: string
  err_code :: "string option"
  err_message :: string

text \<open>\<open>new Error(message)\<close>.\<close>

definition Error :: "string \<Rightarrow> js_error" where
  "Error msg = \<lparr>err_name = ''Error'', err_code = None, err_message = msg\<rparr>"

text \<open>Decimal rendering of a status code or attempt count inside a template string.\<close>

definition digit_char :: "nat \<Rightarrow> char" where
  "digit_char n = ''0123456789'' ! n"

fun string_of_nat :: "nat \<Rightarrow> string" where
  "string_of_nat n = (if n < 10 then [digit_char n] else string_of_nat (n div 10) @ [digit_char (n mod 10)])"

declare string_of_nat.simps [simp del]

text \<open>\<open>xs.join(sep)\<close>.\<close>

fun join :: "string \<Rightarrow> string list \<Rightarrow> string" where
  "join sep [] = []"
| "join sep [x] = x"
| "join sep (x # y # ys) = x @ sep @ join sep (y # ys)"

section \<open>Double-precision numbers\<close>

text \<open>
  A finite double is represented by the real number it denotes. Rounding a real to the
  nearest double, ties to the even significand, is what a subtraction does to its exact
  result and what the parser does to a decimal literal. A result beyond the largest
  double stands for an infinity; it compares with a finite bound as the infinity does.
\<close>

definition pow2 :: "int \<Rightarrow> real" where
  "pow2 k = (if 0 \<le> k then 2 ^ nat k else 1 / 2 ^ nat (- k))"

text \<open>The nearest integer, a tie going to the even one.\<close>

definition roundTiesToEven :: "real \<Rightarrow> int" where
  "roundTiesToEven y =
     (let f = \<lfloor>y\<rfloor> in
      if y - of_int f < 1 / 2 then f
      else if y - of_int f > 1 / 2 then f + 1
      else if even f then f else f + 1)"

text \<open>
  The binary exponent of a positive real, searched downwards from \<open>e\<close> in at most \<open>n\<close>
  steps: the greatest exponent whose power of two is not above \<open>x\<close>, and the last one tried
  when there is none. From 1023 in 2045 steps the search ends at -1022, the exponent of
  the subnormal doubles.
\<close>

primrec findExp :: "nat \<Rightarrow> int \<Rightarrow> real \<Rightarrow> int" where
  "findExp 0 e x = e"
| "findExp (Suc n) e x = (if pow2 e \<le> x then e else findExp n (e - 1) x)"

text \<open>
  Rounding of a non-negative real: to a multiple of the unit in the last place, which is
  52 binary places below the exponent.
\<close>

definition roundMagnitude :: "real \<Rightarrow> real" where
  "roundMagnitude x =
     (if x = 0 then 0
      else (let k = findExp 2045 1023 x - 52
            in of_int (roundTiesToEven (x / pow2 k)) * pow2 k))"

definition round64 :: "real \<Rightarrow> real" where
  "round64 x = (if x < 0 then - roundMagnitude (- x) else roundMagnitude x)"

text \<open>The value of the literal \<open>0.001\<close>: the double nearest to one thousandth.\<close>

definition double_0_001 :: real where
  "double_0_001 = 4611686018427388 * pow2 (- 62)"


section \<open>The Overpass service (locations server)\<close>

subsection \<open>escapeSearchTerm\<close>

text \<open>
  \<open>s.replace(/[class]/g, replacement)\<close> for a character class: every character of the
  class is replaced, from left to right, the others are kept. The replacement is a function
  of the matched character, to cover the pattern that inserts the match itself.
\<close>

definition replaceAll :: "(char \<Rightarrow> bool) \<Rightarrow> (char \<Rightarrow> string) \<Rightarrow> string \<Rightarrow> string" where
  "replaceAll cls repl s = concat (map (\<lambda>c. if cls c then repl c else [c]) s)"

text \<open>
  The five chained replacements of \<open>escapeSearchTerm\<close>, innermost first: backslashes are
  doubled, a double quote gets a backslash, then square brackets, parentheses and the
  characters \<open>. * + ? ^ $ { } |\<close> get a backslash in front of the match.
  Both servers carry the same function.
\<close>

definition escapeSearchTerm :: "string \<Rightarrow> string" where
  "escapeSearchTerm searchTerm =
     replaceAll (\<lambda>c. c \<in> set ''.*+?^${}|'') (\<lambda>c. [bslash, c])
      (replaceAll (\<lambda>c. c \<in> set ''()'') (\<lambda>c. [bslash, c])
       (replaceAll (\<lambda>c. c \<in> set ''[]'') (\<lambda>c. [bslash, c])
        (replaceAll (\<lambda>c. c = dquote) (\<lambda>_. [bslash, dquote])
         (replaceAll (\<lambda>c. c = bslash) (\<lambda>_. [bslash, bslash]) searchTerm))))"

text \<open>
  What the specification asks of one character: a backslash, a double quote, a bracket, a
  parenthesis or another metacharacter is written once, behind one backslash; any other
  character is written as it is.
\<close>

definition spec_escapeChar :: "char \<Rightarrow> string" where
  "spec_escapeChar c =
     (if c = bslash \<or> c = dquote \<or> c \<in> set ''[]().*+?^${}|'' then [bslash, c] else [c])"

subsection \<open>determineType\<close>

text \<open>The chain of tests of \<open>determineType\<close> that follows the test of the place tag.\<close>

definition determineType_nonPlace :: "tags \<Rightarrow> string" where
  "determineType_nonPlace tags =
     (if tags ''natural'' = Some ''mountain_range'' then ''mountain_range''
      else if tags ''natural'' = Some ''peak'' then ''peak''
      else if tags ''natural'' = Some ''cave_entrance'' \<or> tags ''natural'' = Some ''cave'' then ''cave''
      else if tags ''natural'' = Some ''waterfall'' then ''waterfall''
      else if tags ''tourism'' = Some ''alpine_hut'' then ''alpine_hut''
      else if tags ''tourism'' = Some ''viewpoint'' then ''viewpoint''
      else if tags ''tourism'' = Some ''museum'' then ''museum''
      else if tags ''tourism'' = Some ''attraction'' then ''attraction''
      else if truthy (tags ''tourism'') then ''attraction''
      else if tags ''historic'' = Some ''castle'' then ''castle''
      else if tags ''historic'' = Some ''fort'' then ''fort''
      else if tags ''historic'' = Some ''ruins'' then ''ruins''
      else if tags ''historic'' = Some ''archaeological_site'' then ''archaeological_site''
      else if tags ''historic'' = Some ''monastery'' then ''monastery''
      else if tags ''historic'' = Some ''memorial'' then ''memorial''
      else if tags ''historic'' = Some ''church'' then ''church''
      else if truthy (tags ''historic'') then ''historical_site''
      else if tags ''amenity'' = Some ''place_of_worship'' then
        (if tags ''religion'' = Some ''christian'' then ''church'' else ''place_of_worship'')
      else ''unknown'')"

definition determineType :: "tags \<Rightarrow> string" where
  "determineType tags = if_truthy (tags ''place'') (\<lambda>place. place) (determineType_nonPlace tags)"

text \<open>The tables of the specification's type-determination rule.\<close>

definition naturalRule :: "string \<rightharpoonup> string" where
  "naturalRule = [''mountain_range'' \<mapsto> ''mountain_range'', ''peak'' \<mapsto> ''peak'',
     ''cave_entrance'' \<mapsto> ''cave'', ''cave'' \<mapsto> ''cave'', ''waterfall'' \<mapsto> ''waterfall'']"

definition naturalMatch :: "tags \<Rightarrow> string option" where
  "naturalMatch tags = (case tags ''natural'' of None \<Rightarrow> None | Some n \<Rightarrow> naturalRule n)"

definition mappedTourism :: "string list" where
  "mappedTourism = [''alpine_hut'', ''viewpoint'', ''museum'', ''attraction'']"

definition mappedHistoric :: "string list" where
  "mappedHistoric = [''castle'', ''fort'', ''ruins'', ''archaeological_site'', ''monastery'',
     ''memorial'', ''church'']"

subsection \<open>parseOverpassResults\<close>

text \<open>An element of the Overpass answer, its optional center point, and the answer.\<close>

record center =
  c_lat :: "real option"
  c_lon :: "real option"

record element =
  e_id :: int
  e_type :: string
  e_lat :: "real option"
  e_lon :: "real option"
  e_center :: "center option"
  e_tags :: "tags option"

record overpass_data =
  elements :: "element list option"

text \<open>A normalized feature, as \<open>parseOverpassResults\<close> builds it.\<close>

record osm_item =
  osmId :: int
  osmType :: string
  o_name :: "string option"
  o_type :: string
  o_lat :: "real option"
  o_lon :: "real option"
  wikipedia :: "string option"
  wikidata :: "string option"
  osmTags :: tags

text \<open>The body of the \<open>map\<close> callback: one element to one feature.\<close>

definition parseElement :: "element \<Rightarrow> osm_item" where
  "parseElement element =
     (let tags = (case e_tags element of None \<Rightarrow> Map.empty | Some t \<Rightarrow> t);
          (lat, lon) =
             (case e_center element of
                Some c \<Rightarrow> if \<not> truthy_num (e_lat element) then (c_lat c, c_lon c)
                          else (e_lat element, e_lon element)
              | None \<Rightarrow> (e_lat element, e_lon element))
      in \<lparr>osmId = e_id element, osmType = e_type element, o_name = tags ''name'',
          o_type = determineType tags, o_lat = lat, o_lon = lon,
          wikipedia = tags ''wikipedia'', wikidata = tags ''wikidata'', osmTags = tags\<rparr>)"

text \<open>The \<open>filter\<close> callback: name, latitude and longitude all truthy.\<close>

definition keepItem :: "osm_item \<Rightarrow> bool" where
  "keepItem item = (truthy (o_name item) \<and> truthy_num (o_lat item) \<and> truthy_num (o_lon item))"

definition parseOverpassResults :: "overpass_data \<Rightarrow> osm_item list" where
  "parseOverpassResults data =
     (case elements data of
        None \<Rightarrow> []
      | Some es \<Rightarrow> if es = [] then [] else filter keepItem (map parseElement es))"

subsection \<open>executeQuery and searchByName\<close>

text \<open>
  The query builders return a fixed template around the search term. The text of a query
  is represented by the builder that made it and its arguments.
\<close>

datatype overpass_query =
    GeneralQuery string
  | TypeSpecificQuery string string
  | PlacesQuery string
  | NaturalQuery string
  | MountainsQuery string
  | PeaksQuery string
  | NaturalSitesQuery string
  | CulturalQuery string

definition typeMapping_keys :: "string list" where
  "typeMapping_keys = [''city'', ''town'', ''village'', ''peak'', ''mountain_range'', ''cave'',
     ''waterfall'', ''castle'', ''fort'', ''ruins'', ''archaeological_site'', ''monastery'',
     ''memorial'', ''church'', ''alpine_hut'', ''viewpoint'', ''museum'', ''attraction'']"

text \<open>The property names that every object inherits from the object prototype.\<close>

definition objectPrototypeKeys :: "string list" where
  "objectPrototypeKeys = [''constructor'', ''__defineGetter__'', ''__defineSetter__'',
     ''hasOwnProperty'', ''__lookupGetter__'', ''__lookupSetter__'', ''isPrototypeOf'',
     ''propertyIsEnumerable'', ''toString'', ''valueOf'', ''__proto__'', ''toLocaleString'']"

text \<open>What the array destructuring of a value that is not iterable throws.\<close>

definition notIterable :: js_error where
  "notIterable = \<lparr>err_name = ''TypeError'', err_code = None,
     err_message = ''mapping is not iterable''\<rparr>"

text \<open>
  \<open>buildTypeSpecificQuery\<close>: a type of the table gets its query; a type for which the
  lookup gives nothing falls back to the general query; a type that names an inherited
  property passes the test \<open>!mapping\<close> and the destructuring of the value throws.
\<close>

definition buildTypeSpecificQuery :: "string \<Rightarrow> string \<Rightarrow> js_error + overpass_query" where
  "buildTypeSpecificQuery searchTerm locationType =
     (if locationType \<in> set typeMapping_keys then Inr (TypeSpecificQuery searchTerm locationType)
      else if locationType \<in> set objectPrototypeKeys then Inl notIterable
      else Inr (GeneralQuery searchTerm))"

text \<open>
  What \<open>fetch\<close> gives: it throws, or it answers with a status and a body. The body of an
  Overpass answer parses to the data or throws while parsing.
\<close>

datatype 'b fetch_result = FetchThrows js_error | FetchResponse nat 'b

datatype overpass_body = OverpassJsonThrows js_error | OverpassJson overpass_data

definition response_ok :: "nat \<Rightarrow> bool" where
  "response_ok status = (200 \<le> status \<and> status \<le> 299)"

text \<open>
  What a service does to the outside: requests and sleeps. Of the console output only the
  lines that the \<open>catch\<close> blocks of \<open>searchByName\<close> write are recorded.
\<close>

datatype net_event =
    OverpassPost overpass_query
  | WikidataGet string
  | Sleep nat
  | ConsoleError string

type_synonym 'w net = "'w \<times> net_event list"

definition emit :: "net_event \<Rightarrow> 'w net \<Rightarrow> 'w net" where
  "emit ev st = (fst st, snd st @ [ev])"

text \<open>The \<open>catch\<close> block of \<open>executeQuery\<close>: an abort becomes the timeout error, anything else is rethrown.\<close>

definition executeQuery_catch :: "js_error \<Rightarrow> js_error" where
  "executeQuery_catch error =
     (if err_name error = ''AbortError'' then Error ''Overpass API timeout'' else error)"

definition executeQuery ::
  "(overpass_query \<Rightarrow> 'w \<Rightarrow> overpass_body fetch_result \<times> 'w) \<Rightarrow> string \<Rightarrow> overpass_query
     \<Rightarrow> 'w net \<Rightarrow> (js_error + osm_item list) \<times> 'w net" where
  "executeQuery fetch searchTerm query st =
     (let (response, w1) = fetch query (fst st);
          st1 = emit (OverpassPost query) (w1, snd st)
      in case response of
           FetchThrows error \<Rightarrow> (Inl (executeQuery_catch error), st1)
         | FetchResponse status body \<Rightarrow>
             if \<not> response_ok status then
               (if status = 504 \<or> status = 429
                then (Inl (executeQuery_catch (Error (''Overpass API temporarily unavailable (''
                        @ string_of_nat status @ '')''))), st1)
                else (Inl (executeQuery_catch (Error (''Overpass API error: ''
                        @ string_of_nat status))), st1))
             else (case body of
                     OverpassJsonThrows error \<Rightarrow> (Inl (executeQuery_catch error), st1)
                   | OverpassJson data \<Rightarrow> (Inr (parseOverpassResults data), st1)))"

text \<open>
  The three \<open>try\<close> blocks of the progressive search. The first two either return their
  results (\<open>Some\<close>) or fall through (\<open>None\<close>), after logging a failure; the last returns
  whatever its query gives, or throws the not-found error.
\<close>

definition tryPlaces ::
  "(overpass_query \<Rightarrow> 'w \<Rightarrow> overpass_body fetch_result \<times> 'w) \<Rightarrow> string
     \<Rightarrow> 'w net \<Rightarrow> osm_item list option \<times> 'w net" where
  "tryPlaces fetch searchTerm st =
     (case executeQuery fetch searchTerm (PlacesQuery searchTerm) st of
        (Inr placesResults, st1) \<Rightarrow>
          if placesResults \<noteq> [] then (Some placesResults, st1) else (None, st1)
      | (Inl error, st1) \<Rightarrow>
          (None, emit (ConsoleError (''Places query failed: '' @ err_message error)) st1))"

definition tryNatural ::
  "(overpass_query \<Rightarrow> 'w \<Rightarrow> overpass_body fetch_result \<times> 'w) \<Rightarrow> string
     \<Rightarrow> 'w net \<Rightarrow> osm_item list option \<times> 'w net" where
  "tryNatural fetch searchTerm st =
     (case executeQuery fetch searchTerm (NaturalQuery searchTerm) st of
        (Inr naturalResults, st1) \<Rightarrow>
          if naturalResults \<noteq> [] then (Some naturalResults, st1) else (None, st1)
      | (Inl error, st1) \<Rightarrow>
          (None, emit (ConsoleError (''Natural features query failed: '' @ err_message error)) st1))"

definition tryCultural ::
  "(overpass_query \<Rightarrow> 'w \<Rightarrow> overpass_body fetch_result \<times> 'w) \<Rightarrow> string
     \<Rightarrow> 'w net \<Rightarrow> (js_error + osm_item list) \<times> 'w net" where
  "tryCultural fetch searchTerm st =
     (case executeQuery fetch searchTerm (CulturalQuery searchTerm) st of
        (Inr culturalResults, st1) \<Rightarrow> (Inr culturalResults, st1)
      | (Inl error, st1) \<Rightarrow>
          (Inl (Error (''No results found for '' @ [dquote] @ searchTerm @ [dquote])),
           emit (ConsoleError (''Cultural query failed: '' @ err_message error)) st1))"

definition searchByName ::
  "(overpass_query \<Rightarrow> 'w \<Rightarrow> overpass_body fetch_result \<times> 'w) \<Rightarrow> string \<Rightarrow> string option
     \<Rightarrow> 'w net \<Rightarrow> (js_error + osm_item list) \<times> 'w net" where
  "searchByName fetch searchTerm locationType st =
     if_truthy locationType
       (\<lambda>t. case buildTypeSpecificQuery searchTerm t of
              Inl error \<Rightarrow> (Inl error, st)
            | Inr query \<Rightarrow> executeQuery fetch searchTerm query st)
       (case tryPlaces fetch searchTerm st of
          (Some placesResults, st1) \<Rightarrow> (Inr placesResults, st1)
        | (None, st1) \<Rightarrow>
           (case tryNatural fetch searchTerm st1 of
              (Some naturalResults, st2) \<Rightarrow> (Inr naturalResults, st2)
            | (None, st2) \<Rightarrow> tryCultural fetch searchTerm st2))"

section \<open>The Wikidata service\<close>

record wd_info =
  wd_label :: "string option"
  wd_description :: "string option"
  wd_population :: "jsval option"
  wd_elevation :: "jsval option"
  wd_area :: "jsval option"
  wd_images :: "string list option"
  wd_coordinates :: "(real option \<times> real option) option"
  wd_officialWebsite :: "jsval option"

text \<open>
  The body of a Wikidata answer: parsing or reading it throws, or it has no entity under
  the identifier, or it has one, given here by the fields that \<open>getInfo\<close> reads from it.
\<close>

datatype wd_body = WdJsonThrows js_error | WdNoEntity | WdEntity wd_info

definition MAX_RETRY_ATTEMPTS :: nat where
  "MAX_RETRY_ATTEMPTS = 3"

definition INITIAL_RETRY_DELAY :: nat where
  "INITIAL_RETRY_DELAY = 1000"

definition getNetworkErrorMessage :: "string option \<Rightarrow> string" where
  "getNetworkErrorMessage errorCode =
     (if errorCode = Some ''ETIMEDOUT'' then
        ''Wikidata server connection timeout. This may be due to network connectivity issues, firewall restrictions, or VPN blocking. Please check your network connection and try again later.''
      else if errorCode = Some ''ECONNRESET'' then
        ''Wikidata server connection was reset. This may indicate network instability or server-side issues. Please try again later.''
      else if errorCode = Some ''ENOTFOUND'' then
        ''Wikidata server could not be reached (DNS resolution failed). Please check your internet connection and DNS settings.''
      else ''Network error ('' @ (case errorCode of None \<Rightarrow> ''undefined'' | Some c \<Rightarrow> c)
             @ ''): Unable to connect to Wikidata servers. Please check your network connection.'')"

text \<open>
  One pass through the loop body of \<open>getInfo\<close>, after the request: the function returns
  or throws (\<open>Done\<close>), sleeps and continues with the next attempt (\<open>RetryAfter\<close>), or
  reaches the end of the \<open>catch\<close> block and continues at once (\<open>RetryNow\<close>).
\<close>

datatype step = Done "js_error + wd_info option" | RetryAfter nat | RetryNow

definition retryDelay :: "nat \<Rightarrow> nat" where
  "retryDelay attempt = INITIAL_RETRY_DELAY * 2 ^ (attempt - 1)"

text \<open>The \<open>catch\<close> block.\<close>

definition getInfo_catch :: "nat \<Rightarrow> js_error \<Rightarrow> step" where
  "getInfo_catch attempt error =
     (let isLastAttempt = (attempt = MAX_RETRY_ATTEMPTS) in
      if err_name error = ''AbortError'' then
        (if \<not> isLastAttempt then RetryAfter (retryDelay attempt)
         else Done (Inl (Error (''Wikidata API timeout after '' @ string_of_nat MAX_RETRY_ATTEMPTS
                  @ '' attempts''))))
      else if err_code error = Some ''ETIMEDOUT'' \<or> err_code error = Some ''ECONNRESET''
              \<or> err_code error = Some ''ENOTFOUND'' then
        (if \<not> isLastAttempt then RetryAfter (retryDelay attempt)
         else Done (Inl (Error (getNetworkErrorMessage (err_code error) @ '' (after ''
                  @ string_of_nat MAX_RETRY_ATTEMPTS @ '' attempts)''))))
      else if isLastAttempt then Done (Inl error)
      else RetryNow)"

text \<open>The \<open>try\<close> block, given what the request gave.\<close>

definition getInfo_try :: "nat \<Rightarrow> wd_body fetch_result \<Rightarrow> step" where
  "getInfo_try attempt response =
     (case response of
        FetchThrows error \<Rightarrow> getInfo_catch attempt error
      | FetchResponse status body \<Rightarrow>
          if \<not> response_ok status then
            (if (status \<ge> 500 \<or> status = 429) \<and> attempt < MAX_RETRY_ATTEMPTS
             then RetryAfter (retryDelay attempt)
             else Done (Inr None))
          else (case body of
                  WdJsonThrows error \<Rightarrow> getInfo_catch attempt error
                | WdNoEntity \<Rightarrow> Done (Inr None)
                | WdEntity info \<Rightarrow> Done (Inr (Some info))))"

definition entityUrl :: "string \<Rightarrow> string" where
  "entityUrl wikidataId = ''https://www.wikidata.org/wiki/Special:EntityData/'' @ wikidataId @ ''.json''"

text \<open>
  The \<open>for\<close> loop from a given attempt on. An attempt beyond the last leaves the loop, and
  the function returns undefined.
\<close>

function getInfo_loop ::
  "(string \<Rightarrow> 'w \<Rightarrow> wd_body fetch_result \<times> 'w) \<Rightarrow> string \<Rightarrow> nat \<Rightarrow> 'w net
     \<Rightarrow> (js_error + wd_info option) \<times> 'w net" where
  "getInfo_loop fetch wikidataId attempt st =
     (if attempt > MAX_RETRY_ATTEMPTS then (Inr None, st)
      else
        (let (response, w1) = fetch (entityUrl wikidataId) (fst st);
             st1 = emit (WikidataGet (entityUrl wikidataId)) (w1, snd st)
         in case getInfo_try attempt response of
              Done result \<Rightarrow> (result, st1)
            | RetryAfter delay \<Rightarrow> getInfo_loop fetch wikidataId (attempt + 1) (emit (Sleep delay) st1)
            | RetryNow \<Rightarrow> getInfo_loop fetch wikidataId (attempt + 1) st1))"
  by pat_completeness auto
termination
  by (relation "measure (\<lambda>(fetch, wikidataId, attempt, st). MAX_RETRY_ATTEMPTS + 1 - attempt)") auto

declare getInfo_loop.simps [simp del]

definition getInfo ::
  "(string \<Rightarrow> 'w \<Rightarrow> wd_body fetch_result \<times> 'w) \<Rightarrow> string option \<Rightarrow> 'w net
     \<Rightarrow> (js_error + wd_info option) \<times> 'w net" where
  "getInfo fetch wikidataId st =
     (case wikidataId of
        None \<Rightarrow> (Inr None, st)
      | Some wid \<Rightarrow>
          (case wid of
             [] \<Rightarrow> (Inr None, st)
           | c # _ \<Rightarrow> if c \<noteq> CHR ''Q'' then (Inr None, st) else getInfo_loop fetch wid 1 st))"

section \<open>Notions used to state properties of the services\<close>

text \<open>The queries posted to the Overpass API, in order, and the number of Wikidata requests.\<close>

fun postedQueries :: "net_event list \<Rightarrow> overpass_query list" where
  "postedQueries [] = []"
| "postedQueries (OverpassPost q # evs) = q # postedQueries evs"
| "postedQueries (ev # evs) = postedQueries evs"

fun wikidataGets :: "net_event list \<Rightarrow> nat" where
  "wikidataGets [] = 0"
| "wikidataGets (WikidataGet url # evs) = Suc (wikidataGets evs)"
| "wikidataGets (ev # evs) = wikidataGets evs"

fun sleeps :: "net_event list \<Rightarrow> nat list" where
  "sleeps [] = []"
| "sleeps (Sleep ms # evs) = ms # sleeps evs"
| "sleeps (ev # evs) = sleeps evs"

text \<open>A stage of the progressive search has results to return.\<close>

definition nonEmpty :: "js_error + osm_item list \<Rightarrow> bool" where
  "nonEmpty r = (case r of Inl error \<Rightarrow> False | Inr results \<Rightarrow> results \<noteq> [])"

text \<open>
  The state in which the stage after a given one starts: the state that the query left,
  with the failure, if there was one, logged under the label of the stage.
\<close>

definition afterStage :: "string \<Rightarrow> (js_error + osm_item list) \<times> 'w net \<Rightarrow> 'w net" where
  "afterStage label out =
     (case fst out of
        Inl error \<Rightarrow> emit (ConsoleError (label @ err_message error)) (snd out)
      | Inr results \<Rightarrow> snd out)"

definition notFound :: "string \<Rightarrow> js_error" where
  "notFound searchTerm = Error (''No results found for '' @ [dquote] @ searchTerm @ [dquote])"

text \<open>
  A test double for \<open>fetch\<close>: the world is the script of the answers still to come, and
  each request, whatever it asks, takes the next one; when the script is over, the request
  gets the given default.
\<close>

definition scripted :: "'r \<Rightarrow> 'q \<Rightarrow> 'r list \<Rightarrow> 'r \<times> 'r list" where
  "scripted dflt request script = (case script of [] \<Rightarrow> (dflt, []) | r # rest \<Rightarrow> (r, rest))"

definition peakElement :: element where
  "peakElement = \<lparr>e_id = 26864258, e_type = ''node'', e_lat = Some 42.1792, e_lon = Some 23.5853,
     e_center = None, e_tags = Some [''name'' \<mapsto> ''Musala'', ''natural'' \<mapsto> ''peak'']\<rparr>"

definition townElement :: element where
  "townElement = \<lparr>e_id = 1, e_type = ''way'', e_lat = None, e_lon = None,
     e_center = Some \<lparr>c_lat = Some 42.65, c_lon = Some 23.35\<rparr>,
     e_tags = Some [''name'' \<mapsto> ''Bankya'', ''place'' \<mapsto> ''town'']\<rparr>"

definition answer :: "element list \<Rightarrow> overpass_body fetch_result" where
  "answer es = FetchResponse 200 (OverpassJson \<lparr>elements = Some es\<rparr>)"

definition serverError :: "overpass_body fetch_result" where
  "serverError = FetchResponse 500 (OverpassJson \<lparr>elements = None\<rparr>)"

text \<open>Test data for the Wikidata service.\<close>

definition sofiaInfo :: wd_info where
  "sofiaInfo = \<lparr>wd_label = Some ''Sofia'', wd_description = Some ''capital of Bulgaria'',
     wd_population = Some (JNum 1286383), wd_elevation = Some (JNum 562), wd_area = Some (JNum 492),
     wd_images = Some [''https://commons.wikimedia.org/wiki/Special:FilePath/Sofia.jpg''],
     wd_coordinates = Some (Some 42.7, Some 23.33), wd_officialWebsite = Some (JStr ''https://www.sofia.bg'')\<rparr>"

definition typeError :: js_error where
  "typeError = \<lparr>err_name = ''TypeError'', err_code = None,
     err_message = ''Cannot read properties of undefined''\<rparr>"

definition connReset :: js_error where
  "connReset = \<lparr>err_name = ''FetchError'', err_code = Some ''ECONNRESET'',
     err_message = ''socket hang up''\<rparr>"

definition wdStatus :: "nat \<Rightarrow> wd_body fetch_result" where
  "wdStatus n = FetchResponse n WdNoEntity"

section \<open>The resolution pipeline\<close>

subsection \<open>Collections (location-constants)\<close>

definition COLLECTION_NAME :: string where
  "COLLECTION_NAME = ''locations''"

definition CITIES :: string where
  "CITIES = ''cities''"

definition MOUNTAINS :: string where
  "MOUNTAINS = ''mountains''"

definition PEAKS :: string where
  "PEAKS = ''peaks''"

definition NATURAL_SITES :: string where
  "NATURAL_SITES = ''natural_sites''"

definition CULTURAL_SITES :: string where
  "CULTURAL_SITES = ''cultural_sites''"

definition LOCATION_TYPE_TO_CATEGORY :: "string \<rightharpoonup> string" where
  "LOCATION_TYPE_TO_CATEGORY = map_of
     [(''city'', ''cities''), (''town'', ''cities''), (''village'', ''cities''),
      (''mountain_range'', ''mountains''), (''peak'', ''peaks''),
      (''cave'', ''natural_sites''), (''waterfall'', ''natural_sites''),
      (''alpine_hut'', ''cultural_sites''), (''viewpoint'', ''cultural_sites''),
      (''museum'', ''cultural_sites''), (''attraction'', ''cultural_sites''),
      (''castle'', ''cultural_sites''), (''fort'', ''cultural_sites''),
      (''ruins'', ''cultural_sites''), (''archaeological_site'', ''cultural_sites''),
      (''monastery'', ''cultural_sites''), (''memorial'', ''cultural_sites''),
      (''church'', ''cultural_sites''), (''historical_site'', ''cultural_sites'')]"

text \<open>
  What \<open>getCollectionForType\<close> can return: the name of a collection, or, for a type that
  names an inherited property of the table, the value of that property, which is truthy
  and not a string.
\<close>

datatype coll_value = CollName string | InheritedProperty string

definition getCollectionForType :: "string \<Rightarrow> coll_value" where
  "getCollectionForType locationType =
     (case LOCATION_TYPE_TO_CATEGORY locationType of
        Some c \<Rightarrow> CollName c
      | None \<Rightarrow> if locationType \<in> set objectPrototypeKeys then InheritedProperty locationType
                else CollName CULTURAL_SITES)"

text \<open>
  \<open>firestore.collection(v)\<close>: the store refuses a path that is not a string, with an
  error of its own.
\<close>

definition invalidResourcePath :: js_error where
  "invalidResourcePath = Error (''Value for argument '' @ [dquote] @ ''collectionPath'' @ [dquote]
     @ '' is not a valid resource path. Path must be a non-empty string.'')"

definition collectionRef :: "coll_value \<Rightarrow> js_error + string" where
  "collectionRef v = (case v of CollName c \<Rightarrow> Inr c | InheritedProperty k \<Rightarrow> Inl invalidResourcePath)"

text \<open>The collection of the cities server (city-constants).\<close>

definition CITY_COLLECTION_NAME :: string where
  "CITY_COLLECTION_NAME = ''cities''"

subsection \<open>Records\<close>

record wp_info =
  wp_title :: "string option"
  wp_description :: "string option"
  wp_thumbnail :: "string option"
  wp_image :: "string option"
  wp_url :: "string option"
  wp_lang :: "string option"

text \<open>The merged object that is validated and written to the store.\<close>

record location =
  l_name :: "string option"
  l_type :: string
  l_lat :: "real option"
  l_lon :: "real option"
  l_osmId :: int
  l_osmType :: string
  l_osmTags :: tags
  description :: "string option"
  wikipediaUrl :: "string option"
  wikipediaLang :: "string option"
  population :: "jsval option"
  elevation :: "jsval option"
  area :: "jsval option"
  officialWebsite :: "jsval option"
  images :: "string list"
  wikidataId :: "string option"
  wikipediaTag :: "string option"
  lastUpdated :: string
  source :: string

text \<open>
  What the operations return: the fields of a location (\<open>data\<close>) with the document id and,
  on the locations server, the collection. A stored document has neither an \<open>id\<close> nor a
  \<open>collection\<close> field of its own, so the order of the spread and these two keys does not
  matter.
\<close>

record returned =
  data :: location
  doc_id :: string
  collection :: "string option"

record validation =
  valid :: bool
  errors :: "(string \<times> string) list"

subsection \<open>Collaborators, state and trace\<close>

text \<open>The methods of the Overpass service that the pipeline calls, with their arguments.\<close>

datatype overpass_call =
    SearchByName string "string option"
  | SearchCities string
  | SearchMountains string
  | SearchPeaks string
  | SearchNaturalSites string
  | SearchCulturalSites string

text \<open>
  The pipeline is parametric in its collaborators: the three services (any of which may
  throw), the validator (its module is not part of the sources at hand), the identifier
  that the store assigns to a new document, and the language built-ins \<open>trim\<close>,
  \<open>parseInt\<close> and the clock.
\<close>

record 'w env =
  trim :: "string \<Rightarrow> string"
  parseInt :: "string \<Rightarrow> jsval"
  toISOString :: "'w \<Rightarrow> string"
  newDocId :: "'w \<Rightarrow> string \<times> 'w"
  overpassService :: "overpass_call \<Rightarrow> 'w \<Rightarrow> (js_error + osm_item list) \<times> 'w"
  wikipediaService_getInfo :: "string \<Rightarrow> 'w \<Rightarrow> (js_error + wp_info option) \<times> 'w"
  wikidataService_getInfo :: "string \<Rightarrow> 'w \<Rightarrow> (js_error + wd_info option) \<times> 'w"
  validateLocationData :: "location \<Rightarrow> validation"

datatype event =
    StoreWhere string string "string option" bool
  | StoreDocGet string string
  | StoreAdd string location
  | OverpassCall overpass_call
  | WikipediaCall string
  | WikidataCall string
  | ValidateCall location

text \<open>
  The state: the world of the collaborators, the store (for each collection its documents,
  each an id with its data, in the order in which a query lists them) and the trace of
  every call the pipeline has made. The store is taken to be reachable, and a string
  used as a collection name to be a path that the store accepts.
\<close>

record 'w sys =
  world :: 'w
  firestore :: "string \<Rightarrow> (string \<times> location) list"
  trace :: "event list"

definition matchesQuery :: "string \<Rightarrow> string option \<Rightarrow> string \<times> location \<Rightarrow> bool" where
  "matchesQuery normalizedName typeFilter doc =
     (l_name (snd doc) = Some normalizedName
      \<and> (case typeFilter of None \<Rightarrow> True | Some t \<Rightarrow> l_type (snd doc) = t))"

text \<open>
  \<open>collection(c).where('name', '==', n)\<close>, then \<open>.where('type', '==', t)\<close> when a type is
  given, then \<open>.limit(1)\<close> when \<open>limitOne\<close>, then \<open>.get()\<close>.
\<close>

definition storeWhere ::
  "string \<Rightarrow> string \<Rightarrow> string option \<Rightarrow> bool \<Rightarrow> 'w sys \<Rightarrow> (string \<times> location) list \<times> 'w sys" where
  "storeWhere collectionName normalizedName typeFilter limitOne s =
     (let found = filter (matchesQuery normalizedName typeFilter) (firestore s collectionName)
      in (if limitOne then take 1 found else found,
          s\<lparr>trace := trace s @ [StoreWhere collectionName normalizedName typeFilter limitOne]\<rparr>))"

text \<open>\<open>collection(c).doc(id).get()\<close>.\<close>

definition storeDocGet :: "string \<Rightarrow> string \<Rightarrow> 'w sys \<Rightarrow> location option \<times> 'w sys" where
  "storeDocGet collectionName locationId s =
     (map_of (firestore s collectionName) locationId,
      s\<lparr>trace := trace s @ [StoreDocGet collectionName locationId]\<rparr>)"

text \<open>\<open>collection(c).add(data)\<close>: the id of the new document.\<close>

definition storeAdd :: "'w env \<Rightarrow> string \<Rightarrow> location \<Rightarrow> 'w sys \<Rightarrow> string \<times> 'w sys" where
  "storeAdd env collectionName enrichedData s =
     (let (newId, w1) = newDocId env (world s)
      in (newId,
          s\<lparr>world := w1,
            firestore := (firestore s)(collectionName := firestore s collectionName @ [(newId, enrichedData)]),
            trace := trace s @ [StoreAdd collectionName enrichedData]\<rparr>))"

definition callOverpass ::
  "'w env \<Rightarrow> overpass_call \<Rightarrow> 'w sys \<Rightarrow> (js_error + osm_item list) \<times> 'w sys" where
  "callOverpass env call s =
     (let (r, w1) = overpassService env call (world s)
      in (r, s\<lparr>world := w1, trace := trace s @ [OverpassCall call]\<rparr>))"

definition callWikipedia ::
  "'w env \<Rightarrow> string \<Rightarrow> 'w sys \<Rightarrow> (js_error + wp_info option) \<times> 'w sys" where
  "callWikipedia env wikipediaTag' s =
     (let (r, w1) = wikipediaService_getInfo env wikipediaTag' (world s)
      in (r, s\<lparr>world := w1, trace := trace s @ [WikipediaCall wikipediaTag']\<rparr>))"

definition callWikidata ::
  "'w env \<Rightarrow> string \<Rightarrow> 'w sys \<Rightarrow> (js_error + wd_info option) \<times> 'w sys" where
  "callWikidata env wikidataId' s =
     (let (r, w1) = wikidataService_getInfo env wikidataId' (world s)
      in (r, s\<lparr>world := w1, trace := trace s @ [WikidataCall wikidataId']\<rparr>))"

definition validate :: "'w env \<Rightarrow> location \<Rightarrow> 'w sys \<Rightarrow> validation \<times> 'w sys" where
  "validate env enrichedData s =
     (validateLocationData env enrichedData,
      s\<lparr>trace := trace s @ [ValidateCall enrichedData]\<rparr>)"

subsection \<open>Merging\<close>

text \<open>A key that the object literal sets only when its value is truthy.\<close>

definition keep_truthy :: "string option \<Rightarrow> string option" where
  "keep_truthy v = (if truthy v then v else None)"

definition keep_truthy_val :: "jsval option \<Rightarrow> jsval option" where
  "keep_truthy_val v = (if truthy_val v then v else None)"

text \<open>
  The \<open>images\<close> entry, the same in both servers: the array of the Wikipedia image, the
  Wikipedia thumbnail and the spread Wikidata images (or of nothing), filtered by
  \<open>Boolean\<close>.
\<close>

definition mergeImages :: "wp_info option \<Rightarrow> wd_info option \<Rightarrow> string list" where
  "mergeImages wikipediaData wikidataData =
     List.map_filter keep_truthy
       ([Option.bind wikipediaData wp_image, Option.bind wikipediaData wp_thumbnail]
        @ map Some (case Option.bind wikidataData wd_images of None \<Rightarrow> [] | Some imgs \<Rightarrow> imgs))"

text \<open>
  The elevation, the same in both servers: the Wikidata elevation when it is truthy,
  else the parsed \<open>ele\<close> tag when the tag is truthy, else nothing.
\<close>

definition mergeElevation :: "'w env \<Rightarrow> osm_item \<Rightarrow> wd_info option \<Rightarrow> jsval option" where
  "mergeElevation env osmData wikidataData =
     (if truthy_val (Option.bind wikidataData wd_elevation) then Option.bind wikidataData wd_elevation
      else if_truthy (osmTags osmData ''ele'') (\<lambda>ele. Some (parseInt env ele)) None)"

text \<open>The object literal of \<open>enrichLocationData\<close> (locations server).\<close>

definition mergeLocation ::
  "'w env \<Rightarrow> osm_item \<Rightarrow> wp_info option \<Rightarrow> wd_info option \<Rightarrow> string \<Rightarrow> location" where
  "mergeLocation env osmData wikipediaData wikidataData now =
     \<lparr>l_name = o_name osmData, l_type = o_type osmData, l_lat = o_lat osmData, l_lon = o_lon osmData,
      l_osmId = osmId osmData, l_osmType = osmType osmData, l_osmTags = osmTags osmData,
      description = keep_truthy (or_else (Option.bind wikipediaData wp_description)
                                         (Option.bind wikidataData wd_description)),
      wikipediaUrl = keep_truthy (Option.bind wikipediaData wp_url),
      wikipediaLang = keep_truthy (Option.bind wikipediaData wp_lang),
      population = keep_truthy_val (Option.bind wikidataData wd_population),
      elevation = mergeElevation env osmData wikidataData,
      area = keep_truthy_val (Option.bind wikidataData wd_area),
      officialWebsite = keep_truthy_val (Option.bind wikidataData wd_officialWebsite),
      images = mergeImages wikipediaData wikidataData,
      wikidataId = keep_truthy (wikidata osmData),
      wikipediaTag = keep_truthy (wikipedia osmData),
      lastUpdated = now, source = ''osm''\<rparr>"

text \<open>The object literal of \<open>searchCity\<close> (cities server): every key is set, truthy or not.\<close>

definition mergeCity ::
  "'w env \<Rightarrow> osm_item \<Rightarrow> wp_info option \<Rightarrow> wd_info option \<Rightarrow> string \<Rightarrow> location" where
  "mergeCity env osmData wikipediaData wikidataData now =
     \<lparr>l_name = o_name osmData, l_type = o_type osmData, l_lat = o_lat osmData, l_lon = o_lon osmData,
      l_osmId = osmId osmData, l_osmType = osmType osmData, l_osmTags = osmTags osmData,
      description = or_else (Option.bind wikipediaData wp_description)
                            (Option.bind wikidataData wd_description),
      wikipediaUrl = Option.bind wikipediaData wp_url,
      wikipediaLang = Option.bind wikipediaData wp_lang,
      population = Option.bind wikidataData wd_population,
      elevation = mergeElevation env osmData wikidataData,
      area = Option.bind wikidataData wd_area,
      officialWebsite = Option.bind wikidataData wd_officialWebsite,
      images = mergeImages wikipediaData wikidataData,
      wikidataId = wikidata osmData,
      wikipediaTag = wikipedia osmData,
      lastUpdated = now, source = ''osm''\<rparr>"

subsection \<open>enrichLocationData\<close>

text \<open>
  Each service is called only under \<open>if (osmData.wikipedia)\<close>, respectively
  \<open>if (osmData.wikidata)\<close>, and inside a \<open>try\<close> whose \<open>catch\<close> only logs.
\<close>

definition fetchWikipedia :: "'w env \<Rightarrow> osm_item \<Rightarrow> 'w sys \<Rightarrow> wp_info option \<times> 'w sys" where
  "fetchWikipedia env osmData s =
     if_truthy (wikipedia osmData)
       (\<lambda>tag. case callWikipedia env tag s of
                 (Inr wikipediaData, s1) \<Rightarrow> (wikipediaData, s1)
               | (Inl error, s1) \<Rightarrow> (None, s1))
       (None, s)"

definition fetchWikidata :: "'w env \<Rightarrow> osm_item \<Rightarrow> 'w sys \<Rightarrow> wd_info option \<times> 'w sys" where
  "fetchWikidata env osmData s =
     if_truthy (wikidata osmData)
       (\<lambda>qid. case callWikidata env qid s of
                 (Inr wikidataData, s1) \<Rightarrow> (wikidataData, s1)
               | (Inl error, s1) \<Rightarrow> (None, s1))
       (None, s)"

definition enrichLocationData :: "'w env \<Rightarrow> osm_item \<Rightarrow> 'w sys \<Rightarrow> location \<times> 'w sys" where
  "enrichLocationData env osmData s =
     (let (wikipediaData, s1) = fetchWikipedia env osmData s;
          (wikidataData, s2) = fetchWikidata env osmData s1
      in (mergeLocation env osmData wikipediaData wikidataData (toISOString env (world s2)), s2))"

subsection \<open>searchLocation\<close>

definition selectCollection :: "string option \<Rightarrow> string option \<Rightarrow> coll_value" where
  "selectCollection locationType category =
     if_truthy locationType (\<lambda>t. getCollectionForType t)
       (if_truthy category (\<lambda>c. CollName c) (CollName COLLECTION_NAME))"

definition typeFilter :: "string option \<Rightarrow> string option" where
  "typeFilter locationType = if_truthy locationType Some None"

text \<open>The chain that picks the Overpass method; both search functions carry it.\<close>

definition queryOverpass ::
  "'w env \<Rightarrow> string \<Rightarrow> string option \<Rightarrow> string option \<Rightarrow> 'w sys
     \<Rightarrow> (js_error + osm_item list) \<times> 'w sys" where
  "queryOverpass env normalizedName locationType category s =
     (if truthy locationType then callOverpass env (SearchByName normalizedName locationType) s
      else if category = Some CITIES then callOverpass env (SearchCities normalizedName) s
      else if category = Some MOUNTAINS then callOverpass env (SearchMountains normalizedName) s
      else if category = Some PEAKS then callOverpass env (SearchPeaks normalizedName) s
      else if category = Some NATURAL_SITES then callOverpass env (SearchNaturalSites normalizedName) s
      else if category = Some CULTURAL_SITES then callOverpass env (SearchCulturalSites normalizedName) s
      else callOverpass env (SearchByName normalizedName locationType) s)"

definition cached :: "string \<Rightarrow> string \<times> location \<Rightarrow> returned" where
  "cached collectionName doc =
     \<lparr>data = (snd doc)\<lparr>source := ''cache''\<rparr>, doc_id = fst doc, collection = Some collectionName\<rparr>"

definition invalidMessage :: "string \<Rightarrow> validation \<Rightarrow> string" where
  "invalidMessage prefix v = prefix @ join ''; '' (map snd (errors v))"

text \<open>The part of \<open>searchLocation\<close> after a cache miss.\<close>

definition resolveFresh ::
  "'w env \<Rightarrow> string \<Rightarrow> string option \<Rightarrow> string option \<Rightarrow> 'w sys \<Rightarrow> (js_error + returned) \<times> 'w sys" where
  "resolveFresh env normalizedName locationType category s =
     (case queryOverpass env normalizedName locationType category s of
        (Inl error, s1) \<Rightarrow> (Inl error, s1)
      | (Inr osmResults, s1) \<Rightarrow>
          (case osmResults of
             [] \<Rightarrow> (Inl (Error (''No results found for '' @ [dquote] @ normalizedName @ [dquote])), s1)
           | osmData # _ \<Rightarrow>
               (let actualCollection = getCollectionForType (o_type osmData);
                    (enrichedData, s2) = enrichLocationData env osmData s1;
                    (validation, s3) = validate env enrichedData s2
                in if \<not> valid validation
                   then (Inl (Error (invalidMessage ''Invalid location data: '' validation)), s3)
                   else (case collectionRef actualCollection of
                           Inl error \<Rightarrow> (Inl error, s3)
                         | Inr c \<Rightarrow>
                             (let (docId, s4) = storeAdd env c enrichedData s3
                              in (Inr \<lparr>data = enrichedData, doc_id = docId,
                                        collection = Some c\<rparr>, s4))))))"

definition searchLocation ::
  "'w env \<Rightarrow> string option \<Rightarrow> string option \<Rightarrow> string option \<Rightarrow> 'w sys
     \<Rightarrow> (js_error + returned) \<times> 'w sys" where
  "searchLocation env locationName locationType category s =
     if_truthy locationName
       (\<lambda>name.
          let normalizedName = trim env name;
              collectionName = selectCollection locationType category
          in case collectionRef collectionName of
               Inl error \<Rightarrow> (Inl error, s)
             | Inr c \<Rightarrow>
                 (let (docs, s1) = storeWhere c normalizedName (typeFilter locationType) True s
                  in case docs of
                       doc # _ \<Rightarrow> (Inr (cached c doc), s1)
                     | [] \<Rightarrow> resolveFresh env normalizedName locationType category s1))
       (Inl (Error ''Location name is required''), s)"

subsection \<open>searchAllLocations\<close>

text \<open>
  \<open>Math.abs(a - b) < 0.001\<close> on doubles: the difference is rounded, and the bound is the
  double that the literal denotes. With an undefined operand the difference is NaN and
  the test fails; the features that \<open>parseOverpassResults\<close> keeps have both coordinates.
\<close>

definition closeBy :: "real option \<Rightarrow> real option \<Rightarrow> bool" where
  "closeBy a b =
     (case a of
        None \<Rightarrow> False
      | Some x \<Rightarrow> (case b of None \<Rightarrow> False | Some y \<Rightarrow> \<bar>round64 (x - y)\<bar> < double_0_001))"

definition isDuplicate :: "returned list \<Rightarrow> osm_item \<Rightarrow> bool" where
  "isDuplicate results osmData =
     list_ex (\<lambda>r. closeBy (l_lat (data r)) (o_lat osmData)
                \<and> closeBy (l_lon (data r)) (o_lon osmData)) results"

text \<open>
  The \<open>for\<close> loop over the Overpass results, with the results accepted so far. What the
  store throws at \<open>add\<close> leaves the loop and the function.
\<close>

fun processOsmResults ::
  "'w env \<Rightarrow> osm_item list \<Rightarrow> returned list \<Rightarrow> 'w sys
     \<Rightarrow> (js_error + returned list) \<times> 'w sys" where
  "processOsmResults env [] results s = (Inr results, s)"
| "processOsmResults env (osmData # rest) results s =
     (if \<not> isDuplicate results osmData then
        (let (enrichedData, s1) = enrichLocationData env osmData s;
             (validation, s2) = validate env enrichedData s1
         in if \<not> valid validation then processOsmResults env rest results s2
            else (case collectionRef (getCollectionForType (o_type osmData)) of
                    Inl error \<Rightarrow> (Inl error, s2)
                  | Inr actualCollection \<Rightarrow>
                      (let (docId, s3) = storeAdd env actualCollection enrichedData s2
                       in processOsmResults env rest
                            (results @ [\<lparr>data = enrichedData, doc_id = docId,
                                          collection = Some actualCollection\<rparr>]) s3)))
      else processOsmResults env rest results s)"

definition searchAllLocations ::
  "'w env \<Rightarrow> string option \<Rightarrow> string option \<Rightarrow> string option \<Rightarrow> 'w sys
     \<Rightarrow> (js_error + returned list) \<times> 'w sys" where
  "searchAllLocations env locationName locationType category s =
     if_truthy locationName
       (\<lambda>name.
          let normalizedName = trim env name;
              collectionName = selectCollection locationType category
          in case collectionRef collectionName of
               Inl error \<Rightarrow> (Inl error, s)
             | Inr c \<Rightarrow>
                 (let (docs, s1) = storeWhere c normalizedName (typeFilter locationType) False s
                  in if docs \<noteq> [] then (Inr (map (cached c) docs), s1)
                     else (case queryOverpass env normalizedName locationType category s1 of
                             (Inl error, s2) \<Rightarrow> (Inl error, s2)
                           | (Inr osmResults, s2) \<Rightarrow>
                               (case processOsmResults env osmResults [] s2 of
                                  (Inl error, s3) \<Rightarrow> (Inl error, s3)
                                | (Inr results, s3) \<Rightarrow>
                                    if results = []
                                    then (Inl (Error (''No results found for '' @ [dquote]
                                             @ normalizedName @ [dquote])), s3)
                                    else (Inr results, s3)))))
       (Inl (Error ''Location name is required''), s)"

subsection \<open>getLocationById\<close>

text \<open>The list that the function probes when no collection is given, as the source writes it.\<close>

definition probedCollections :: "string list" where
  "probedCollections = [CITIES, MOUNTAINS, NATURAL_SITES, CULTURAL_SITES]"

fun probeCollections ::
  "string list \<Rightarrow> string \<Rightarrow> 'w sys \<Rightarrow> (js_error + returned) \<times> 'w sys" where
  "probeCollections [] locationId s =
     (Inl (Error (''Location with ID '' @ [dquote] @ locationId @ [dquote] @ '' not found'')), s)"
| "probeCollections (collection' # rest) locationId s =
     (case storeDocGet collection' locationId s of
        (Some docData, s1) \<Rightarrow>
          (Inr \<lparr>data = docData, doc_id = locationId, collection = Some collection'\<rparr>, s1)
      | (None, s1) \<Rightarrow> probeCollections rest locationId s1)"

definition getLocationById ::
  "string \<Rightarrow> string option \<Rightarrow> 'w sys \<Rightarrow> (js_error + returned) \<times> 'w sys" where
  "getLocationById locationId collectionName s =
     if_truthy collectionName
       (\<lambda>c. case storeDocGet c locationId s of
               (None, s1) \<Rightarrow>
                 (Inl (Error (''Location with ID '' @ [dquote] @ locationId @ [dquote]
                         @ '' not found in '' @ c)), s1)
             | (Some docData, s1) \<Rightarrow>
                 (Inr \<lparr>data = docData, doc_id = locationId, collection = Some c\<rparr>, s1))
       (probeCollections probedCollections locationId s)"

text \<open>The five collections of the specification, in the order of the constants module.\<close>

definition spec_collections :: "string list" where
  "spec_collections = [CITIES, MOUNTAINS, PEAKS, NATURAL_SITES, CULTURAL_SITES]"

subsection \<open>searchCity (cities server)\<close>

text \<open>
  The Wikipedia call of \<open>searchCity\<close> stands outside any \<open>try\<close>: what it throws leaves the
  function. The Wikidata call is inside one. The validator of this server is
  \<open>validateCityData\<close>, passed as the validator of the environment.
\<close>

definition searchCity_fresh ::
  "'w env \<Rightarrow> string \<Rightarrow> 'w sys \<Rightarrow> (js_error + returned) \<times> 'w sys" where
  "searchCity_fresh env normalizedName s =
     (case callOverpass env (SearchByName normalizedName None) s of
        (Inl error, s1) \<Rightarrow> (Inl error, s1)
      | (Inr osmResults, s1) \<Rightarrow>
          (case osmResults of
             [] \<Rightarrow> (Inl (Error (''No results found for '' @ [dquote] @ normalizedName @ [dquote])), s1)
           | osmData # _ \<Rightarrow>
               (case if_truthy (wikipedia osmData)
                       (\<lambda>tag. callWikipedia env tag s1) (Inr None, s1) of
                  (Inl error, s2) \<Rightarrow> (Inl error, s2)
                | (Inr wikipediaData, s2) \<Rightarrow>
                    (let (wikidataData, s3) = fetchWikidata env osmData s2;
                         enrichedData = mergeCity env osmData wikipediaData wikidataData
                                          (toISOString env (world s3));
                         (validation, s4) = validate env enrichedData s3
                     in if \<not> valid validation
                        then (Inl (Error (invalidMessage ''Invalid city data: '' validation)), s4)
                        else (let (docId, s5) = storeAdd env CITY_COLLECTION_NAME enrichedData s4
                              in (Inr \<lparr>data = enrichedData, doc_id = docId, collection = None\<rparr>,
                                  s5))))))"

definition searchCity ::
  "'w env \<Rightarrow> string option \<Rightarrow> 'w sys \<Rightarrow> (js_error + returned) \<times> 'w sys" where
  "searchCity env cityName s =
     if_truthy cityName
       (\<lambda>name.
          let normalizedName = trim env name;
              (docs, s1) = storeWhere CITY_COLLECTION_NAME normalizedName None True s
          in case docs of
               doc # _ \<Rightarrow> (Inr \<lparr>data = (snd doc)\<lparr>source := ''cache''\<rparr>, doc_id = fst doc,
                                 collection = None\<rparr>, s1)
             | [] \<Rightarrow> searchCity_fresh env normalizedName s1)
       (Inl (Error ''City name is required''), s)"

section \<open>Notions and test data used to state properties of the pipeline\<close>

text \<open>An entry of the image array that may be missing, as the list of what it contributes.\<close>

definition entry :: "string option \<Rightarrow> string list" where
  "entry v = (case v of None \<Rightarrow> [] | Some u \<Rightarrow> [u])"

text \<open>The Wikidata images as a list, empty when the adapter gave none.\<close>

definition imageList :: "wd_info option \<Rightarrow> string list" where
  "imageList wikidataData = (case Option.bind wikidataData wd_images of None \<Rightarrow> [] | Some imgs \<Rightarrow> imgs)"


text \<open>A \<open>trim\<close> for test environments: blanks are removed at both ends.\<close>

definition blankTrim :: "string \<Rightarrow> string" where
  "blankTrim s = rev (dropWhile (\<lambda>c. c = CHR '' '') (rev (dropWhile (\<lambda>c. c = CHR '' '') s)))"

text \<open>A Wikipedia summary whose thumbnail is the original image.\<close>

definition smallImageSummary :: wp_info where
  "smallImageSummary = \<lparr>wp_title = Some ''Bankya'', wp_description = Some ''Town near Sofia'',
     wp_thumbnail = Some ''https://upload.wikimedia.org/wikipedia/commons/b/b1/Bankya.jpg'',
     wp_image = Some ''https://upload.wikimedia.org/wikipedia/commons/b/b1/Bankya.jpg'',
     wp_url = Some ''https://bg.wikipedia.org/wiki/Bankya'', wp_lang = Some ''bg''\<rparr>"

text \<open>A feature with both cross-reference tags, and features without any, by coordinates.\<close>

definition sofiaItem :: osm_item where
  "sofiaItem = \<lparr>osmId = 1700051, osmType = ''node'', o_name = Some ''Sofia'', o_type = ''city'',
     o_lat = Some 42.6977, o_lon = Some 23.3219, wikipedia = Some ''bg:Sofia'',
     wikidata = Some ''Q472'',
     osmTags = [''name'' \<mapsto> ''Sofia'', ''place'' \<mapsto> ''city'', ''wikipedia'' \<mapsto> ''bg:Sofia'',
                ''wikidata'' \<mapsto> ''Q472'']\<rparr>"


text \<open>
  A test environment: the world counts the documents created; the Overpass service
  answers every call with the given features; the Wikipedia service times out; the
  Wikidata service knows Sofia; the validator accepts everything.
\<close>

definition testEnv :: "osm_item list \<Rightarrow> nat env" where
  "testEnv features =
     \<lparr>trim = blankTrim,
      parseInt = (\<lambda>s. JNaN),
      toISOString = (\<lambda>w. ''2025-01-01T00:00:00.000Z''),
      newDocId = (\<lambda>w. (''doc'' @ string_of_nat w, w + 1)),
      overpassService = (\<lambda>call w. (Inr features, w)),
      wikipediaService_getInfo = (\<lambda>tag w. (Inl (Error ''Wikipedia API timeout''), w)),
      wikidataService_getInfo = (\<lambda>qid w. (Inr (Some sofiaInfo), w)),
      validateLocationData = (\<lambda>d. \<lparr>valid = True, errors = []\<rparr>)\<rparr>"

text \<open>A stored document, and states: an empty store, and stores with that one document.\<close>

definition storedLocation :: "string \<Rightarrow> string \<Rightarrow> location" where
  "storedLocation n t =
     \<lparr>l_name = Some n, l_type = t, l_lat = Some 42.1792, l_lon = Some 23.5853,
      l_osmId = 26864258, l_osmType = ''node'', l_osmTags = [''name'' \<mapsto> n],
      description = None, wikipediaUrl = None, wikipediaLang = None, population = None,
      elevation = Some (JNum 2925), area = None, officialWebsite = None, images = [],
      wikidataId = None, wikipediaTag = None,
      lastUpdated = ''2024-06-01T00:00:00.000Z'', source = ''osm''\<rparr>"

definition emptyStore :: "nat sys" where
  "emptyStore = \<lparr>world = 0, firestore = (\<lambda>c. []), trace = []\<rparr>"

definition storeWith :: "string \<Rightarrow> string \<Rightarrow> location \<Rightarrow> nat sys" where
  "storeWith c docId d =
     \<lparr>world = 0, firestore = (\<lambda>c'. if c' = c then [(docId, d)] else []), trace = []\<rparr>"



text \<open>The kind of a traced call.\<close>

fun eventKind :: "event \<Rightarrow> string" where
  "eventKind (StoreWhere c n t l) = ''where''"
| "eventKind (StoreDocGet c i) = ''get''"
| "eventKind (StoreAdd c d) = ''add''"
| "eventKind (OverpassCall c) = ''overpass''"
| "eventKind (WikipediaCall t) = ''wikipedia''"
| "eventKind (WikidataCall q) = ''wikidata''"
| "eventKind (ValidateCall d) = ''validate''"

text \<open>What a call returned, or nothing when it threw.\<close>

definition returnedList :: "js_error + returned list \<Rightarrow> returned list" where
  "returnedList r = (case r of Inl error \<Rightarrow> [] | Inr rs \<Rightarrow> rs)"

text \<open>Two results are close on both axes, by the test of the loop.\<close>

definition nearBoth :: "returned \<Rightarrow> returned \<Rightarrow> bool" where
  "nearBoth a b = (closeBy (l_lat (data a)) (l_lat (data b))
                  \<and> closeBy (l_lon (data a)) (l_lon (data b)))"

section \<open>Properties of the Overpass service\<close>

subsection \<open>escapeSearchTerm\<close>

lemma replaceAll_append:
  "replaceAll cls repl (xs @ ys) = replaceAll cls repl xs @ replaceAll cls repl ys"
  by (simp add: replaceAll_def)

lemma replaceAll_Cons:
  "replaceAll cls repl (c # s) = (if cls c then repl c else [c]) @ replaceAll cls repl s"
  by (simp add: replaceAll_def)

lemma replaceAll_Nil: "replaceAll cls repl [] = []"
  by (simp add: replaceAll_def)

lemma escapeSearchTerm_Nil: "escapeSearchTerm [] = []"
  by (simp add: escapeSearchTerm_def replaceAll_Nil)

lemma escapeSearchTerm_Cons:
  "escapeSearchTerm (c # s) = spec_escapeChar c @ escapeSearchTerm s"
  by (simp add: escapeSearchTerm_def replaceAll_Cons replaceAll_append replaceAll_Nil
      spec_escapeChar_def bslash_def dquote_def)

text \<open>
  C7. The output of \<open>escapeSearchTerm\<close> is the input with every backslash, double quote,
  square bracket, parenthesis and other metacharacter written exactly once behind one
  backslash, and every other character unchanged: because backslashes are doubled first,
  the backslashes that the later replacements insert are never escaped again. The input
  of a, backslash, double quote, b gives a, three backslashes, double quote, b (a doubled
  backslash and an escaped quote), and an input of backslash, double quote, opening
  bracket, opening parenthesis and dot gives each of the five behind one backslash.
\<close>

theorem escapeSearchTerm_each_once:
  "escapeSearchTerm s = concat (map spec_escapeChar s)
   \<and> escapeSearchTerm [CHR ''a'', bslash, dquote, CHR ''b'']
       = [CHR ''a'', bslash, bslash, bslash, dquote, CHR ''b'']
   \<and> escapeSearchTerm [bslash, dquote, CHR ''['', CHR ''('', CHR ''.'']
       = [bslash, bslash, bslash, dquote, bslash, CHR ''['', bslash, CHR ''('', bslash, CHR ''.'']"
proof (intro conjI)
  show "escapeSearchTerm s = concat (map spec_escapeChar s)"
    by (induction s) (simp_all add: escapeSearchTerm_Nil escapeSearchTerm_Cons)
  show "escapeSearchTerm [CHR ''a'', bslash, dquote, CHR ''b'']
       = [CHR ''a'', bslash, bslash, bslash, dquote, CHR ''b'']"
    by (simp add: escapeSearchTerm_Cons escapeSearchTerm_Nil spec_escapeChar_def bslash_def dquote_def)
  show "escapeSearchTerm [bslash, dquote, CHR ''['', CHR ''('', CHR ''.'']
       = [bslash, bslash, bslash, dquote, bslash, CHR ''['', bslash, CHR ''('', bslash, CHR ''.'']"
    by (simp add: escapeSearchTerm_Cons escapeSearchTerm_Nil spec_escapeChar_def bslash_def dquote_def)
qed

subsection \<open>determineType\<close>

lemma naturalMatch_SomeD:
  "naturalMatch tags = Some t \<Longrightarrow>
     (tags ''natural'' = Some ''mountain_range'' \<and> t = ''mountain_range'')
   \<or> (tags ''natural'' = Some ''peak'' \<and> t = ''peak'')
   \<or> (tags ''natural'' = Some ''cave_entrance'' \<and> t = ''cave'')
   \<or> (tags ''natural'' = Some ''cave'' \<and> t = ''cave'')
   \<or> (tags ''natural'' = Some ''waterfall'' \<and> t = ''waterfall'')"
  by (cases "tags ''natural''") (auto simp: naturalMatch_def naturalRule_def split: if_splits)

lemma naturalMatch_NoneD:
  "naturalMatch tags = None \<Longrightarrow>
     tags ''natural'' \<noteq> Some ''mountain_range'' \<and> tags ''natural'' \<noteq> Some ''peak''
   \<and> tags ''natural'' \<noteq> Some ''cave_entrance'' \<and> tags ''natural'' \<noteq> Some ''cave''
   \<and> tags ''natural'' \<noteq> Some ''waterfall''"
  by (cases "tags ''natural''") (auto simp: naturalMatch_def naturalRule_def split: if_splits)

lemma determineType_not_place:
  "\<not> truthy (tags ''place'') \<Longrightarrow> determineType tags = determineType_nonPlace tags"
  by (cases "tags ''place''") (simp_all add: determineType_def truthy_def if_truthy_def)

lemma determineType_place:
  "tags ''place'' = Some p \<Longrightarrow> p \<noteq> [] \<Longrightarrow> determineType tags = p"
  by (simp add: determineType_def if_truthy_def)

lemma determineType_natural:
  assumes "\<not> truthy (tags ''place'')" and "naturalMatch tags = Some t"
  shows "determineType tags = t"
  using naturalMatch_SomeD [OF assms(2)] determineType_not_place [of tags, OF assms(1)]
  by (elim disjE conjE) (simp_all add: determineType_nonPlace_def)

lemma nonPlace_after_natural:
  assumes "naturalMatch tags = None"
  shows "determineType_nonPlace tags =
     (if tags ''tourism'' = Some ''alpine_hut'' then ''alpine_hut''
      else if tags ''tourism'' = Some ''viewpoint'' then ''viewpoint''
      else if tags ''tourism'' = Some ''museum'' then ''museum''
      else if tags ''tourism'' = Some ''attraction'' then ''attraction''
      else if truthy (tags ''tourism'') then ''attraction''
      else if tags ''historic'' = Some ''castle'' then ''castle''
      else if tags ''historic'' = Some ''fort'' then ''fort''
      else if tags ''historic'' = Some ''ruins'' then ''ruins''
      else if tags ''historic'' = Some ''archaeological_site'' then ''archaeological_site''
      else if tags ''historic'' = Some ''monastery'' then ''monastery''
      else if tags ''historic'' = Some ''memorial'' then ''memorial''
      else if tags ''historic'' = Some ''church'' then ''church''
      else if truthy (tags ''historic'') then ''historical_site''
      else if tags ''amenity'' = Some ''place_of_worship'' then
        (if tags ''religion'' = Some ''christian'' then ''church'' else ''place_of_worship'')
      else ''unknown'')"
  using naturalMatch_NoneD [OF assms] unfolding determineType_nonPlace_def by simp

lemma not_truthy_neq: "\<not> truthy v \<Longrightarrow> s \<noteq> [] \<Longrightarrow> v \<noteq> Some s"
  by (auto simp: truthy_def)

lemma determineType_tourism:
  assumes "\<not> truthy (tags ''place'')" and "naturalMatch tags = None"
    and "tags ''tourism'' = Some t" and "t \<noteq> []"
  shows "determineType tags = (if t \<in> set mappedTourism then t else ''attraction'')"
  using assms(3,4)
  by (simp add: determineType_not_place [of tags, OF assms(1)]
      nonPlace_after_natural [of tags, OF assms(2)] truthy_def mappedTourism_def)

lemma determineType_historic:
  assumes "\<not> truthy (tags ''place'')" and "naturalMatch tags = None"
    and "\<not> truthy (tags ''tourism'')" and "tags ''historic'' = Some h" and "h \<noteq> []"
  shows "determineType tags = (if h \<in> set mappedHistoric then h else ''historical_site'')"
proof -
  have nt: "tags ''tourism'' \<noteq> Some ''alpine_hut''" "tags ''tourism'' \<noteq> Some ''viewpoint''"
    "tags ''tourism'' \<noteq> Some ''museum''" "tags ''tourism'' \<noteq> Some ''attraction''"
    using assms(3) by (simp_all add: not_truthy_neq)
  show ?thesis
    using assms(3,4,5) nt
    by (simp add: determineType_not_place [of tags, OF assms(1)]
        nonPlace_after_natural [of tags, OF assms(2)] mappedHistoric_def) (simp add: truthy_def)
qed

lemma determineType_amenity_or_unknown:
  assumes "\<not> truthy (tags ''place'')" and "naturalMatch tags = None"
    and "\<not> truthy (tags ''tourism'')" and "\<not> truthy (tags ''historic'')"
  shows "determineType tags =
     (if tags ''amenity'' = Some ''place_of_worship''
      then (if tags ''religion'' = Some ''christian'' then ''church'' else ''place_of_worship'')
      else ''unknown'')"
proof -
  have nt: "tags ''tourism'' \<noteq> Some ''alpine_hut''" "tags ''tourism'' \<noteq> Some ''viewpoint''"
    "tags ''tourism'' \<noteq> Some ''museum''" "tags ''tourism'' \<noteq> Some ''attraction''"
    using assms(3) by (simp_all add: not_truthy_neq)
  have nh: "tags ''historic'' \<noteq> Some ''castle''" "tags ''historic'' \<noteq> Some ''fort''"
    "tags ''historic'' \<noteq> Some ''ruins''" "tags ''historic'' \<noteq> Some ''archaeological_site''"
    "tags ''historic'' \<noteq> Some ''monastery''" "tags ''historic'' \<noteq> Some ''memorial''"
    "tags ''historic'' \<noteq> Some ''church''"
    using assms(4) by (simp_all add: not_truthy_neq)
  show ?thesis
    using assms(3,4) nt nh
    by (simp add: determineType_not_place [of tags, OF assms(1)]
        nonPlace_after_natural [of tags, OF assms(2)])
qed

lemma determineType_examples:
  "determineType [''historic'' \<mapsto> ''castle''] = ''castle''"
  "determineType [''tourism'' \<mapsto> ''zoo''] = ''attraction''"
  "determineType [''amenity'' \<mapsto> ''place_of_worship'', ''religion'' \<mapsto> ''christian''] = ''church''"
  "determineType [''amenity'' \<mapsto> ''place_of_worship''] = ''place_of_worship''"
  "determineType Map.empty = ''unknown''"
  by (simp_all add: determineType_def determineType_nonPlace_def truthy_def if_truthy_def)

lemma determineType_historic_only:
  "h \<noteq> [] \<Longrightarrow> h \<notin> set mappedHistoric \<Longrightarrow> determineType [''historic'' \<mapsto> h] = ''historical_site''"
  by (simp add: determineType_def determineType_nonPlace_def truthy_def mappedHistoric_def
      if_truthy_def)

text \<open>
  C5. For every tag mapping \<open>determineType\<close> takes the first rule that matches, in the
  order place, natural, tourism, historic, amenity: a non-empty place value is the type
  whatever the other tags are; else a mapped natural value decides; else a non-empty
  tourism value gives itself when it is one of the four mapped values and \<open>attraction\<close>
  otherwise; else a non-empty historic value gives itself when it is one of the seven
  mapped values and \<open>historical_site\<close> otherwise; else a place of worship is a \<open>church\<close>
  when the religion is christian and a \<open>place_of_worship\<close> otherwise; else the type is
  \<open>unknown\<close>. A tag whose value is the empty string counts as absent. The five tag sets
  of the specification give castle, attraction, church, place_of_worship and unknown, and
  a tag set with only a non-empty unmapped historic value gives \<open>historical_site\<close>.
\<close>

theorem determineType_first_match:
  "(\<forall>p. tags ''place'' = Some p \<and> p \<noteq> [] \<longrightarrow> determineType tags = p)
   \<and> (\<not> truthy (tags ''place'') \<longrightarrow>
        (\<forall>t. naturalMatch tags = Some t \<longrightarrow> determineType tags = t)
      \<and> (naturalMatch tags = None \<longrightarrow>
           (\<forall>t. tags ''tourism'' = Some t \<and> t \<noteq> [] \<longrightarrow>
                determineType tags = (if t \<in> set mappedTourism then t else ''attraction''))
         \<and> (\<not> truthy (tags ''tourism'') \<longrightarrow>
              (\<forall>h. tags ''historic'' = Some h \<and> h \<noteq> [] \<longrightarrow>
                   determineType tags = (if h \<in> set mappedHistoric then h else ''historical_site''))
            \<and> (\<not> truthy (tags ''historic'') \<longrightarrow>
                 determineType tags =
                   (if tags ''amenity'' = Some ''place_of_worship''
                    then (if tags ''religion'' = Some ''christian'' then ''church''
                          else ''place_of_worship'')
                    else ''unknown'')))))
   \<and> determineType [''historic'' \<mapsto> ''castle''] = ''castle''
   \<and> determineType [''tourism'' \<mapsto> ''zoo''] = ''attraction''
   \<and> (\<forall>h. h \<noteq> [] \<and> h \<notin> set mappedHistoric \<longrightarrow>
          determineType [''historic'' \<mapsto> h] = ''historical_site'')
   \<and> determineType [''amenity'' \<mapsto> ''place_of_worship'', ''religion'' \<mapsto> ''christian''] = ''church''
   \<and> determineType [''amenity'' \<mapsto> ''place_of_worship''] = ''place_of_worship''
   \<and> determineType Map.empty = ''unknown''"
  using determineType_place [of tags] determineType_natural [of tags]
    determineType_tourism [of tags] determineType_historic [of tags]
    determineType_amenity_or_unknown [of tags] determineType_examples
    determineType_historic_only
  by (intro conjI impI allI) (blast | assumption)+

theorem determineType_first_match_witness:
  "determineType [''place'' \<mapsto> ''town'', ''historic'' \<mapsto> ''castle''] = ''town''
   \<and> determineType [''natural'' \<mapsto> ''cave_entrance'', ''tourism'' \<mapsto> ''museum''] = ''cave''
   \<and> determineType [''tourism'' \<mapsto> ''zoo'', ''historic'' \<mapsto> ''castle''] = ''attraction''
   \<and> determineType [''historic'' \<mapsto> ''fort'', ''amenity'' \<mapsto> ''place_of_worship''] = ''fort''
   \<and> determineType [''historic'' \<mapsto> ''wayside_cross''] = ''historical_site''
   \<and> determineType [''place'' \<mapsto> '''', ''amenity'' \<mapsto> ''place_of_worship''] = ''place_of_worship''"
proof (intro conjI)
  show "determineType [''place'' \<mapsto> ''town'', ''historic'' \<mapsto> ''castle''] = ''town''"
    using determineType_first_match [of "[''place'' \<mapsto> ''town'', ''historic'' \<mapsto> ''castle'']"]
    by simp
  show "determineType [''natural'' \<mapsto> ''cave_entrance'', ''tourism'' \<mapsto> ''museum''] = ''cave''"
    using determineType_first_match [of "[''natural'' \<mapsto> ''cave_entrance'', ''tourism'' \<mapsto> ''museum'']"]
    by (simp add: truthy_def naturalMatch_def naturalRule_def)
  show "determineType [''tourism'' \<mapsto> ''zoo'', ''historic'' \<mapsto> ''castle''] = ''attraction''"
    using determineType_first_match [of "[''tourism'' \<mapsto> ''zoo'', ''historic'' \<mapsto> ''castle'']"]
    by (simp add: truthy_def naturalMatch_def mappedTourism_def)
  show "determineType [''historic'' \<mapsto> ''fort'', ''amenity'' \<mapsto> ''place_of_worship''] = ''fort''"
    using determineType_first_match [of "[''historic'' \<mapsto> ''fort'', ''amenity'' \<mapsto> ''place_of_worship'']"]
    by (simp add: truthy_def naturalMatch_def mappedHistoric_def)
  show "determineType [''historic'' \<mapsto> ''wayside_cross''] = ''historical_site''"
    using determineType_first_match [of "[''historic'' \<mapsto> ''wayside_cross'']"]
    by (simp add: truthy_def naturalMatch_def mappedHistoric_def)
  show "determineType [''place'' \<mapsto> '''', ''amenity'' \<mapsto> ''place_of_worship''] = ''place_of_worship''"
    using determineType_first_match [of "[''place'' \<mapsto> '''', ''amenity'' \<mapsto> ''place_of_worship'']"]
    by (simp add: truthy_def naturalMatch_def)
qed

subsection \<open>parseOverpassResults\<close>

lemma parseElement_name:
  "o_name (parseElement e) = (case e_tags e of None \<Rightarrow> None | Some t \<Rightarrow> t ''name'')"
  by (simp add: parseElement_def Let_def split: option.splits prod.splits)

lemma parseElement_center:
  "e_center e = Some c \<Longrightarrow> \<not> truthy_num (e_lat e)
   \<Longrightarrow> o_lat (parseElement e) = c_lat c \<and> o_lon (parseElement e) = c_lon c"
  by (simp add: parseElement_def Let_def)

lemma parseElement_direct:
  "e_center e = None \<or> truthy_num (e_lat e)
   \<Longrightarrow> o_lat (parseElement e) = e_lat e \<and> o_lon (parseElement e) = e_lon e"
  by (auto simp: parseElement_def Let_def split: option.splits)

lemma parseOverpassResults_filter:
  "parseOverpassResults d =
     filter keepItem (map parseElement (case elements d of None \<Rightarrow> [] | Some es \<Rightarrow> es))"
  by (simp add: parseOverpassResults_def split: option.splits)

lemma keepItem_falsy:
  "o_name item = None \<or> o_name item = Some [] \<or> o_lat item = None \<or> o_lat item = Some 0
     \<or> o_lon item = None \<or> o_lon item = Some 0 \<Longrightarrow> \<not> keepItem item"
  by (auto simp: keepItem_def truthy_def truthy_num_def)

text \<open>
  C10. Every item that \<open>parseOverpassResults\<close> returns has a truthy name, latitude and
  longitude, and the items returned are exactly the normalized elements that pass this
  test, in order. The coordinates of a normalized element are those of its center when
  its own latitude is missing (or zero) and it has a center, and its own otherwise; its
  name is the \<open>name\<close> tag. An element whose name is missing or empty, or whose resolved
  latitude or longitude is missing or exactly 0, is not among the results.
\<close>

theorem parseOverpassResults_truthy:
  "(\<forall>item \<in> set (parseOverpassResults d).
       truthy (o_name item) \<and> truthy_num (o_lat item) \<and> truthy_num (o_lon item))
   \<and> parseOverpassResults d =
       filter keepItem (map parseElement (case elements d of None \<Rightarrow> [] | Some es \<Rightarrow> es))
   \<and> (\<forall>e. o_name (parseElement e) = (case e_tags e of None \<Rightarrow> None | Some t \<Rightarrow> t ''name''))
   \<and> (\<forall>e c. e_center e = Some c \<and> \<not> truthy_num (e_lat e) \<longrightarrow>
          o_lat (parseElement e) = c_lat c \<and> o_lon (parseElement e) = c_lon c)
   \<and> (\<forall>e. e_center e = None \<or> truthy_num (e_lat e) \<longrightarrow>
          o_lat (parseElement e) = e_lat e \<and> o_lon (parseElement e) = e_lon e)
   \<and> (\<forall>e. o_name (parseElement e) = None \<or> o_name (parseElement e) = Some []
          \<or> o_lat (parseElement e) = None \<or> o_lat (parseElement e) = Some 0
          \<or> o_lon (parseElement e) = None \<or> o_lon (parseElement e) = Some 0
        \<longrightarrow> parseElement e \<notin> set (parseOverpassResults d))"
proof -
  have kept: "\<forall>item \<in> set (parseOverpassResults d).
       truthy (o_name item) \<and> truthy_num (o_lat item) \<and> truthy_num (o_lon item)"
    by (simp add: parseOverpassResults_filter keepItem_def)
  have center: "\<forall>e c. e_center e = Some c \<and> \<not> truthy_num (e_lat e) \<longrightarrow>
          o_lat (parseElement e) = c_lat c \<and> o_lon (parseElement e) = c_lon c"
    using parseElement_center by blast
  have direct: "\<forall>e. e_center e = None \<or> truthy_num (e_lat e) \<longrightarrow>
          o_lat (parseElement e) = e_lat e \<and> o_lon (parseElement e) = e_lon e"
    using parseElement_direct by blast
  have dropped: "\<forall>e. o_name (parseElement e) = None \<or> o_name (parseElement e) = Some []
          \<or> o_lat (parseElement e) = None \<or> o_lat (parseElement e) = Some 0
          \<or> o_lon (parseElement e) = None \<or> o_lon (parseElement e) = Some 0
        \<longrightarrow> parseElement e \<notin> set (parseOverpassResults d)"
  proof (intro allI impI)
    fix e
    assume "o_name (parseElement e) = None \<or> o_name (parseElement e) = Some []
          \<or> o_lat (parseElement e) = None \<or> o_lat (parseElement e) = Some 0
          \<or> o_lon (parseElement e) = None \<or> o_lon (parseElement e) = Some 0"
    then have "\<not> keepItem (parseElement e)"
      by (rule keepItem_falsy)
    then show "parseElement e \<notin> set (parseOverpassResults d)"
      by (simp add: parseOverpassResults_filter)
  qed
  show ?thesis
    by (intro conjI kept center direct dropped allI parseOverpassResults_filter parseElement_name)
qed

text \<open>
  The witness: of a node at latitude 0, a way with a center, a node with an empty name
  and a node with coordinates, the way (at its center) and the last node are returned.
\<close>

theorem parseOverpassResults_truthy_witness:
  "parseOverpassResults \<lparr>elements = Some
      [peakElement\<lparr>e_lat := Some 0\<rparr>, townElement,
       peakElement\<lparr>e_tags := Some [''name'' \<mapsto> '''']\<rparr>, peakElement]\<rparr>
     = [parseElement townElement, parseElement peakElement]
   \<and> o_lat (parseElement townElement) = Some 42.65
   \<and> o_lon (parseElement townElement) = Some 23.35
   \<and> truthy (o_name (parseElement townElement))
   \<and> parseElement (peakElement\<lparr>e_lat := Some 0\<rparr>)
       \<notin> set (parseOverpassResults \<lparr>elements = Some [peakElement\<lparr>e_lat := Some 0\<rparr>]\<rparr>)"
proof (intro conjI)
  let ?d = "\<lparr>elements = Some
      [peakElement\<lparr>e_lat := Some 0\<rparr>, townElement,
       peakElement\<lparr>e_tags := Some [''name'' \<mapsto> '''']\<rparr>, peakElement]\<rparr>"
  have T: "keepItem (parseElement townElement)" "keepItem (parseElement peakElement)"
    "\<not> keepItem (parseElement (peakElement\<lparr>e_lat := Some 0\<rparr>))"
    "\<not> keepItem (parseElement (peakElement\<lparr>e_tags := Some [''name'' \<mapsto> '''']\<rparr>))"
    by (simp_all add: keepItem_def parseElement_def townElement_def peakElement_def
        truthy_def truthy_num_def Let_def)
  show "parseOverpassResults ?d = [parseElement townElement, parseElement peakElement]"
    using parseOverpassResults_truthy [of ?d] T by simp
  show "o_lat (parseElement townElement) = Some 42.65"
    using parseOverpassResults_truthy [of ?d]
    by (simp add: townElement_def truthy_num_def)
  show "o_lon (parseElement townElement) = Some 23.35"
    using parseOverpassResults_truthy [of ?d]
    by (simp add: townElement_def truthy_num_def)
  have "\<forall>item \<in> set (parseOverpassResults ?d). truthy (o_name item)"
    using parseOverpassResults_truthy [of ?d] by blast
  moreover have "parseElement townElement \<in> set (parseOverpassResults ?d)"
    using parseOverpassResults_truthy [of ?d] T by simp
  ultimately show "truthy (o_name (parseElement townElement))"
    by blast
  have Z: "o_lat (parseElement (peakElement\<lparr>e_lat := Some 0\<rparr>)) = Some 0"
    by (simp add: parseElement_def peakElement_def truthy_num_def Let_def)
  show "parseElement (peakElement\<lparr>e_lat := Some 0\<rparr>)
       \<notin> set (parseOverpassResults \<lparr>elements = Some [peakElement\<lparr>e_lat := Some 0\<rparr>]\<rparr>)"
    using parseOverpassResults_truthy [of "\<lparr>elements = Some [peakElement\<lparr>e_lat := Some 0\<rparr>]\<rparr>"] Z
    by blast
qed

subsection \<open>searchByName\<close>

lemma postedQueries_append:
  "postedQueries (xs @ ys) = postedQueries xs @ postedQueries ys"
  by (induction xs rule: postedQueries.induct) simp_all

lemma executeQuery_log:
  "snd (snd (executeQuery fetch searchTerm q st)) = snd st @ [OverpassPost q]"
  by (simp add: executeQuery_def emit_def Let_def
      split: prod.splits fetch_result.splits overpass_body.splits)

lemma executeQuery_posted:
  "postedQueries (snd (snd (executeQuery fetch searchTerm q st))) = postedQueries (snd st) @ [q]"
  by (simp add: executeQuery_log postedQueries_append)

lemma afterStage_posted:
  "postedQueries (snd (afterStage label out)) = postedQueries (snd (snd out))"
  by (simp add: afterStage_def emit_def postedQueries_append split: sum.splits)

lemma afterStage_logged:
  "fst out = Inl e \<Longrightarrow> snd (afterStage label out) = snd (snd out) @ [ConsoleError (label @ err_message e)]"
  by (simp add: afterStage_def emit_def)

lemma tryPlaces_Some:
  "nonEmpty (fst (executeQuery fetch searchTerm (PlacesQuery searchTerm) st))
   \<Longrightarrow> (case tryPlaces fetch searchTerm st of
          (Some rs, st1) \<Rightarrow> (Inr rs, st1)
        | (None, st1) \<Rightarrow> rest st1)
       = executeQuery fetch searchTerm (PlacesQuery searchTerm) st"
  by (cases "executeQuery fetch searchTerm (PlacesQuery searchTerm) st")
     (auto simp: tryPlaces_def nonEmpty_def split: sum.splits)

lemma tryPlaces_None:
  "\<not> nonEmpty (fst (executeQuery fetch searchTerm (PlacesQuery searchTerm) st))
   \<Longrightarrow> tryPlaces fetch searchTerm st
       = (None, afterStage ''Places query failed: ''
                  (executeQuery fetch searchTerm (PlacesQuery searchTerm) st))"
  by (cases "executeQuery fetch searchTerm (PlacesQuery searchTerm) st")
     (auto simp: tryPlaces_def nonEmpty_def afterStage_def split: sum.splits)

lemma tryNatural_Some:
  "nonEmpty (fst (executeQuery fetch searchTerm (NaturalQuery searchTerm) st))
   \<Longrightarrow> (case tryNatural fetch searchTerm st of
          (Some rs, st1) \<Rightarrow> (Inr rs, st1)
        | (None, st1) \<Rightarrow> rest st1)
       = executeQuery fetch searchTerm (NaturalQuery searchTerm) st"
  by (cases "executeQuery fetch searchTerm (NaturalQuery searchTerm) st")
     (auto simp: tryNatural_def nonEmpty_def split: sum.splits)

lemma tryNatural_None:
  "\<not> nonEmpty (fst (executeQuery fetch searchTerm (NaturalQuery searchTerm) st))
   \<Longrightarrow> tryNatural fetch searchTerm st
       = (None, afterStage ''Natural features query failed: ''
                  (executeQuery fetch searchTerm (NaturalQuery searchTerm) st))"
  by (cases "executeQuery fetch searchTerm (NaturalQuery searchTerm) st")
     (auto simp: tryNatural_def nonEmpty_def afterStage_def split: sum.splits)

lemma tryCultural_Inr:
  "fst (executeQuery fetch searchTerm (CulturalQuery searchTerm) st) = Inr rs
   \<Longrightarrow> tryCultural fetch searchTerm st = executeQuery fetch searchTerm (CulturalQuery searchTerm) st"
  by (cases "executeQuery fetch searchTerm (CulturalQuery searchTerm) st")
     (auto simp: tryCultural_def)

lemma tryCultural_Inl:
  "fst (executeQuery fetch searchTerm (CulturalQuery searchTerm) st) = Inl e
   \<Longrightarrow> tryCultural fetch searchTerm st
       = (Inl (notFound searchTerm),
          afterStage ''Cultural query failed: ''
            (executeQuery fetch searchTerm (CulturalQuery searchTerm) st))"
  by (cases "executeQuery fetch searchTerm (CulturalQuery searchTerm) st")
     (auto simp: tryCultural_def afterStage_def notFound_def)

lemma tryCultural_posted:
  "postedQueries (snd (snd (tryCultural fetch searchTerm st)))
     = postedQueries (snd st) @ [CulturalQuery searchTerm]"
proof (cases "fst (executeQuery fetch searchTerm (CulturalQuery searchTerm) st)")
  case (Inl e)
  then show ?thesis
    by (simp add: tryCultural_Inl afterStage_posted executeQuery_posted)
next
  case (Inr rs)
  then show ?thesis
    by (simp add: tryCultural_Inr executeQuery_posted)
qed

lemma searchByName_untyped:
  "\<not> truthy locationType \<Longrightarrow>
   searchByName fetch searchTerm locationType st =
     (case tryPlaces fetch searchTerm st of
        (Some placesResults, st1) \<Rightarrow> (Inr placesResults, st1)
      | (None, st1) \<Rightarrow>
         (case tryNatural fetch searchTerm st1 of
            (Some naturalResults, st2) \<Rightarrow> (Inr naturalResults, st2)
          | (None, st2) \<Rightarrow> tryCultural fetch searchTerm st2))"
  by (cases locationType) (simp_all add: searchByName_def if_truthy_def truthy_def)

text \<open>
  C4. Called without a location type, \<open>searchByName\<close> posts the populated-places query
  first. Write \<open>places\<close> for what that query gives, \<open>natural\<close> for what the
  natural-features query gives when run after it (a failure of the places query logged),
  and \<open>cultural\<close> for what the cultural query gives when run after both.
  \<^item> If \<open>places\<close> has one or more results, they are returned and the places query is the
    only query posted.
  \<^item> If \<open>places\<close> is empty or an error and \<open>natural\<close> has one or more results, these are
    returned, and the queries posted are the places and the natural query: the cultural
    query is not issued.
  \<^item> If both are empty or errors, all three queries are posted in this order; the result
    of the cultural query is returned when it is a list (even an empty one), and when it is
    an error the caller gets the error \<open>No results found for "term"\<close>, and the failure is
    logged.
  \<^item> An error of the places or of the natural stage is logged on the console and not
    propagated: whatever error \<open>searchByName\<close> throws here is the not-found error.
\<close>

theorem searchByName_progressive:
  assumes "\<not> truthy locationType"
  shows "let places = executeQuery fetch searchTerm (PlacesQuery searchTerm) st;
             natural = executeQuery fetch searchTerm (NaturalQuery searchTerm)
                         (afterStage ''Places query failed: '' places);
             cultural = executeQuery fetch searchTerm (CulturalQuery searchTerm)
                          (afterStage ''Natural features query failed: '' natural);
             out = searchByName fetch searchTerm locationType st
         in (nonEmpty (fst places) \<longrightarrow>
               out = places \<and> snd (snd out) = snd st @ [OverpassPost (PlacesQuery searchTerm)])
          \<and> (\<not> nonEmpty (fst places) \<and> nonEmpty (fst natural) \<longrightarrow>
               out = natural
               \<and> postedQueries (snd (snd out))
                   = postedQueries (snd st) @ [PlacesQuery searchTerm, NaturalQuery searchTerm])
          \<and> (\<not> nonEmpty (fst places) \<and> \<not> nonEmpty (fst natural) \<longrightarrow>
               postedQueries (snd (snd out))
                 = postedQueries (snd st)
                   @ [PlacesQuery searchTerm, NaturalQuery searchTerm, CulturalQuery searchTerm]
               \<and> (\<forall>rs. fst cultural = Inr rs \<longrightarrow> out = cultural)
               \<and> (\<forall>e. fst cultural = Inl e \<longrightarrow>
                      out = (Inl (notFound searchTerm), afterStage ''Cultural query failed: '' cultural)
                    \<and> ConsoleError (''Cultural query failed: '' @ err_message e) \<in> set (snd (snd out))))
          \<and> (\<forall>e. fst places = Inl e \<longrightarrow>
                 ConsoleError (''Places query failed: '' @ err_message e) \<in> set (snd (snd natural)))
          \<and> (\<forall>e. fst natural = Inl e \<longrightarrow>
                 ConsoleError (''Natural features query failed: '' @ err_message e)
                   \<in> set (snd (snd cultural)))
          \<and> (\<forall>e. fst out = Inl e \<longrightarrow> e = notFound searchTerm)"
proof -
  define places where "places = executeQuery fetch searchTerm (PlacesQuery searchTerm) st"
  define natural where "natural = executeQuery fetch searchTerm (NaturalQuery searchTerm)
                         (afterStage ''Places query failed: '' places)"
  define cultural where "cultural = executeQuery fetch searchTerm (CulturalQuery searchTerm)
                          (afterStage ''Natural features query failed: '' natural)"
  define out where "out = searchByName fetch searchTerm locationType st"
  note defs = places_def natural_def cultural_def out_def
  have A: "out = places \<and> snd (snd out) = snd st @ [OverpassPost (PlacesQuery searchTerm)]"
    if "nonEmpty (fst places)"
    using that unfolding defs
    by (simp add: searchByName_untyped [OF assms] tryPlaces_Some executeQuery_log)
  have B: "out = natural
           \<and> postedQueries (snd (snd out))
               = postedQueries (snd st) @ [PlacesQuery searchTerm, NaturalQuery searchTerm]"
    if "\<not> nonEmpty (fst places)" "nonEmpty (fst natural)"
    using that unfolding defs
    by (simp add: searchByName_untyped [OF assms] tryPlaces_None tryNatural_Some
        executeQuery_posted afterStage_posted)
  have C0: "out = tryCultural fetch searchTerm (afterStage ''Natural features query failed: '' natural)"
    if "\<not> nonEmpty (fst places)" "\<not> nonEmpty (fst natural)"
    using that unfolding defs
    by (simp add: searchByName_untyped [OF assms] tryPlaces_None tryNatural_None)
  have C1: "postedQueries (snd (snd out))
                 = postedQueries (snd st)
                   @ [PlacesQuery searchTerm, NaturalQuery searchTerm, CulturalQuery searchTerm]"
    if "\<not> nonEmpty (fst places)" "\<not> nonEmpty (fst natural)"
    unfolding C0 [OF that] tryCultural_posted
    by (simp add: natural_def places_def afterStage_posted executeQuery_posted)
  have C2: "out = cultural"
    if "\<not> nonEmpty (fst places)" "\<not> nonEmpty (fst natural)" "fst cultural = Inr rs" for rs
    using that(3) unfolding C0 [OF that(1,2)] cultural_def
    by (rule tryCultural_Inr)
  have C3: "out = (Inl (notFound searchTerm), afterStage ''Cultural query failed: '' cultural)
            \<and> ConsoleError (''Cultural query failed: '' @ err_message e) \<in> set (snd (snd out))"
    if "\<not> nonEmpty (fst places)" "\<not> nonEmpty (fst natural)" "fst cultural = Inl e" for e
  proof -
    have "out = (Inl (notFound searchTerm), afterStage ''Cultural query failed: '' cultural)"
      using that(3) unfolding C0 [OF that(1,2)] cultural_def
      by (rule tryCultural_Inl)
    then show ?thesis
      using that(3) by (simp add: afterStage_logged)
  qed
  have D: "ConsoleError (''Places query failed: '' @ err_message e) \<in> set (snd (snd natural))"
    if "fst places = Inl e" for e
    using that unfolding natural_def
    by (simp add: executeQuery_log afterStage_logged)
  have E: "ConsoleError (''Natural features query failed: '' @ err_message e)
             \<in> set (snd (snd cultural))"
    if "fst natural = Inl e" for e
    using that unfolding cultural_def
    by (simp add: executeQuery_log afterStage_logged)
  have F: "e = notFound searchTerm" if "fst out = Inl e" for e
  proof (cases "nonEmpty (fst places)")
    case True
    with A that show ?thesis by (auto simp: nonEmpty_def)
  next
    case np: False
    show ?thesis
    proof (cases "nonEmpty (fst natural)")
      case True
      with B [OF np] that show ?thesis by (auto simp: nonEmpty_def)
    next
      case nn: False
      show ?thesis
      proof (cases "fst cultural")
        case (Inl e')
        with C3 [OF np nn] that show ?thesis by simp
      next
        case (Inr rs)
        with C2 [OF np nn] that show ?thesis by simp
      qed
    qed
  qed
  have "(nonEmpty (fst places) \<longrightarrow>
               out = places \<and> snd (snd out) = snd st @ [OverpassPost (PlacesQuery searchTerm)])
          \<and> (\<not> nonEmpty (fst places) \<and> nonEmpty (fst natural) \<longrightarrow>
               out = natural
               \<and> postedQueries (snd (snd out))
                   = postedQueries (snd st) @ [PlacesQuery searchTerm, NaturalQuery searchTerm])
          \<and> (\<not> nonEmpty (fst places) \<and> \<not> nonEmpty (fst natural) \<longrightarrow>
               postedQueries (snd (snd out))
                 = postedQueries (snd st)
                   @ [PlacesQuery searchTerm, NaturalQuery searchTerm, CulturalQuery searchTerm]
               \<and> (\<forall>rs. fst cultural = Inr rs \<longrightarrow> out = cultural)
               \<and> (\<forall>e. fst cultural = Inl e \<longrightarrow>
                      out = (Inl (notFound searchTerm), afterStage ''Cultural query failed: '' cultural)
                    \<and> ConsoleError (''Cultural query failed: '' @ err_message e) \<in> set (snd (snd out))))
          \<and> (\<forall>e. fst places = Inl e \<longrightarrow>
                 ConsoleError (''Places query failed: '' @ err_message e) \<in> set (snd (snd natural)))
          \<and> (\<forall>e. fst natural = Inl e \<longrightarrow>
                 ConsoleError (''Natural features query failed: '' @ err_message e)
                   \<in> set (snd (snd cultural)))
          \<and> (\<forall>e. fst out = Inl e \<longrightarrow> e = notFound searchTerm)"
    using A B C1 C2 C3 D E F by blast
  then show ?thesis
    unfolding defs Let_def .
qed

lemma keepItem_demo:
  "keepItem (parseElement peakElement)" "keepItem (parseElement townElement)"
  by (simp_all add: keepItem_def parseElement_def townElement_def peakElement_def
      truthy_def truthy_num_def Let_def)

lemma executeQuery_serverError:
  "executeQuery (scripted serverError) searchTerm q ([], l)
     = (Inl (Error (''Overpass API error: '' @ string_of_nat 500)), ([], l @ [OverpassPost q]))"
  by (simp add: executeQuery_def scripted_def serverError_def emit_def executeQuery_catch_def
      Error_def response_ok_def)

lemma executeQuery_answer:
  "executeQuery (scripted d) searchTerm q (answer es # rest, l)
     = (Inr (filter keepItem (map parseElement es)), (rest, l @ [OverpassPost q]))"
  by (simp add: executeQuery_def scripted_def answer_def emit_def parseOverpassResults_def
      response_ok_def)

lemma afterStage_Inr: "afterStage label (Inr rs, st) = st"
  by (simp add: afterStage_def)

lemma afterStage_Inl:
  "afterStage label (Inl e, st) = emit (ConsoleError (label @ err_message e)) st"
  by (simp add: afterStage_def)

lemma not_truthy_None: "\<not> truthy None"
  by (simp add: truthy_def)

text \<open>
  The witness runs the three cases against a scripted \<open>fetch\<close>: places empty and one peak
  from the natural query (the cultural query is not posted); one town from the places
  query; every request answered with status 500.
\<close>

theorem searchByName_progressive_witness:
  "searchByName (scripted serverError) ''Musala'' None ([answer [], answer [peakElement]], [])
     = (Inr [parseElement peakElement],
        ([], [OverpassPost (PlacesQuery ''Musala''), OverpassPost (NaturalQuery ''Musala'')]))
   \<and> searchByName (scripted serverError) ''Bankya'' None ([answer [townElement]], [])
     = (Inr [parseElement townElement], ([], [OverpassPost (PlacesQuery ''Bankya'')]))
   \<and> fst (searchByName (scripted serverError) ''Nowhere'' None ([], []))
     = Inl (Error (''No results found for '' @ [dquote] @ ''Nowhere'' @ [dquote]))"
proof (intro conjI)
  show "searchByName (scripted serverError) ''Musala'' None ([answer [], answer [peakElement]], [])
     = (Inr [parseElement peakElement],
        ([], [OverpassPost (PlacesQuery ''Musala''), OverpassPost (NaturalQuery ''Musala'')]))"
    using searchByName_progressive [OF not_truthy_None, of "scripted serverError" "''Musala''"
        "([answer [], answer [peakElement]], [])"] keepItem_demo
    by (simp add: Let_def executeQuery_answer nonEmpty_def afterStage_Inr)
  show "searchByName (scripted serverError) ''Bankya'' None ([answer [townElement]], [])
     = (Inr [parseElement townElement], ([], [OverpassPost (PlacesQuery ''Bankya'')]))"
    using searchByName_progressive [OF not_truthy_None, of "scripted serverError" "''Bankya''"
        "([answer [townElement]], [])"] keepItem_demo
    by (simp add: Let_def executeQuery_answer nonEmpty_def)
  show "fst (searchByName (scripted serverError) ''Nowhere'' None ([], []))
     = Inl (Error (''No results found for '' @ [dquote] @ ''Nowhere'' @ [dquote]))"
  proof -
    let ?e = "Error (''Overpass API error: '' @ string_of_nat 500)"
    let ?l1 = "[OverpassPost (PlacesQuery ''Nowhere''),
                ConsoleError (''Places query failed: '' @ err_message ?e)]"
    let ?l2 = "?l1 @ [OverpassPost (NaturalQuery ''Nowhere''),
                      ConsoleError (''Natural features query failed: '' @ err_message ?e)]"
    have p: "executeQuery (scripted serverError) ''Nowhere'' (PlacesQuery ''Nowhere'') ([], [])
               = (Inl ?e, ([], [OverpassPost (PlacesQuery ''Nowhere'')]))"
      using executeQuery_serverError [of "''Nowhere''" "PlacesQuery ''Nowhere''" "[]"] by simp
    have a1: "afterStage ''Places query failed: ''
                (Inl ?e, ([], [OverpassPost (PlacesQuery ''Nowhere'')])) = ([], ?l1)"
      by (simp add: afterStage_Inl emit_def)
    have n: "executeQuery (scripted serverError) ''Nowhere'' (NaturalQuery ''Nowhere'') ([], ?l1)
               = (Inl ?e, ([], ?l1 @ [OverpassPost (NaturalQuery ''Nowhere'')]))"
      by (rule executeQuery_serverError)
    have a2: "afterStage ''Natural features query failed: ''
                (Inl ?e, ([], ?l1 @ [OverpassPost (NaturalQuery ''Nowhere'')])) = ([], ?l2)"
      by (simp add: afterStage_Inl emit_def)
    have c: "executeQuery (scripted serverError) ''Nowhere'' (CulturalQuery ''Nowhere'') ([], ?l2)
               = (Inl ?e, ([], ?l2 @ [OverpassPost (CulturalQuery ''Nowhere'')]))"
      by (rule executeQuery_serverError)
    have ne: "\<not> nonEmpty (Inl ?e)"
      by (simp add: nonEmpty_def)
    note T = searchByName_progressive [OF not_truthy_None, of "scripted serverError" "''Nowhere''"
        "([], [])", unfolded Let_def p a1 n a2 c fst_conv snd_conv]
    note T3 = T [THEN conjunct2, THEN conjunct2, THEN conjunct1]
    from T3 ne have "\<exists>s. searchByName (scripted serverError) ''Nowhere'' None ([], [])
                         = (Inl (notFound ''Nowhere''), s)"
      by blast
    then show ?thesis
      by (auto simp: notFound_def)
  qed
qed

text \<open>
  With a type that names an inherited property the query builder throws, and nothing is
  posted.
\<close>

lemma searchByName_inherited_type:
  "searchByName fetch searchTerm (Some ''constructor'') st = (Inl notIterable, st)"
  by (simp add: searchByName_def if_truthy_def buildTypeSpecificQuery_def typeMapping_keys_def
      objectPrototypeKeys_def)

section \<open>Properties of the Wikidata service\<close>

lemma wikidataGets_append: "wikidataGets (xs @ ys) = wikidataGets xs + wikidataGets ys"
  by (induction xs rule: wikidataGets.induct) simp_all

lemma getInfo_loop_gets:
  "wikidataGets (snd (snd (getInfo_loop fetch wid attempt st)))
     \<le> wikidataGets (snd st) + (MAX_RETRY_ATTEMPTS + 1 - attempt)"
proof (induction fetch wid attempt st rule: getInfo_loop.induct)
  case (1 fetch wid attempt st)
  show ?case
  proof (cases "attempt > MAX_RETRY_ATTEMPTS")
    case True
    then show ?thesis
      by (simp add: getInfo_loop.simps)
  next
    case False
    obtain response w1 where f: "fetch (entityUrl wid) (fst st) = (response, w1)"
      by (cases "fetch (entityUrl wid) (fst st)")
    let ?st1 = "emit (WikidataGet (entityUrl wid)) (w1, snd st)"
    have g1: "wikidataGets (snd ?st1) = wikidataGets (snd st) + 1"
      by (simp add: emit_def wikidataGets_append)
    show ?thesis
    proof (cases "getInfo_try attempt response")
      case (Done result)
      with False f g1 show ?thesis
        by (subst getInfo_loop.simps) simp
    next
      case (RetryAfter delay)
      have "wikidataGets (snd (snd (getInfo_loop fetch wid (attempt + 1) (emit (Sleep delay) ?st1))))
              \<le> wikidataGets (snd (emit (Sleep delay) ?st1)) + (MAX_RETRY_ATTEMPTS + 1 - (attempt + 1))"
        using "1.IH"(1) [OF False f [symmetric] refl refl RetryAfter] .
      moreover have "wikidataGets (snd (emit (Sleep delay) ?st1)) = wikidataGets (snd st) + 1"
        by (simp add: emit_def wikidataGets_append)
      ultimately show ?thesis
        using False f RetryAfter
        by (subst getInfo_loop.simps) simp
    next
      case RetryNow
      have "wikidataGets (snd (snd (getInfo_loop fetch wid (attempt + 1) ?st1)))
              \<le> wikidataGets (snd ?st1) + (MAX_RETRY_ATTEMPTS + 1 - (attempt + 1))"
        using "1.IH"(2) [OF False f [symmetric] refl refl RetryNow] .
      with g1 show ?thesis
        using False f RetryNow
        by (subst getInfo_loop.simps) simp
    qed
  qed
qed

text \<open>Whatever the network does, one call of \<open>getInfo\<close> sends at most three requests.\<close>

lemma getInfo_at_most_three_requests:
  "wikidataGets (snd (snd (getInfo fetch wid st))) \<le> wikidataGets (snd st) + 3"
proof -
  have "wikidataGets (snd (snd (getInfo_loop fetch wid 1 st))) \<le> wikidataGets (snd st) + 3" for wid
    using getInfo_loop_gets [of fetch wid 1 st] by (simp add: MAX_RETRY_ATTEMPTS_def)
  then show ?thesis
    by (simp add: getInfo_def split: option.splits list.splits)
qed

lemma getInfo_Q: "getInfo fetch (Some (CHR ''Q'' # rest)) st = getInfo_loop fetch (CHR ''Q'' # rest) 1 st"
  by (simp add: getInfo_def)

text \<open>One unrolling of the loop, for evaluation against a script.\<close>

lemma getInfo_loop_scripted:
  "attempt \<le> MAX_RETRY_ATTEMPTS \<Longrightarrow>
   getInfo_loop (scripted d) wid attempt (r # script, l) =
     (case getInfo_try attempt r of
        Done result \<Rightarrow> (result, (script, l @ [WikidataGet (entityUrl wid)]))
      | RetryAfter delay \<Rightarrow>
          getInfo_loop (scripted d) wid (attempt + 1)
            (script, l @ [WikidataGet (entityUrl wid), Sleep delay])
      | RetryNow \<Rightarrow>
          getInfo_loop (scripted d) wid (attempt + 1) (script, l @ [WikidataGet (entityUrl wid)]))"
  by (subst getInfo_loop.simps) (simp add: scripted_def emit_def split: step.splits)

text \<open>
  The test of the specification: 503, 503, 200 succeeds on the third attempt, with three
  requests and sleeps of 1000 and 2000 milliseconds between them.
\<close>

lemma getInfo_503_503_200:
  "getInfo (scripted (wdStatus 404)) (Some ''Q472'')
       ([wdStatus 503, wdStatus 503, FetchResponse 200 (WdEntity sofiaInfo)], [])
     = (Inr (Some sofiaInfo),
        ([], [WikidataGet (entityUrl ''Q472''), Sleep 1000, WikidataGet (entityUrl ''Q472''),
              Sleep 2000, WikidataGet (entityUrl ''Q472'')]))"
  by (simp add: getInfo_Q getInfo_loop_scripted MAX_RETRY_ATTEMPTS_def getInfo_try_def wdStatus_def
      response_ok_def retryDelay_def INITIAL_RETRY_DELAY_def)

text \<open>A 404 answer returns null after one request.\<close>

lemma getInfo_404:
  "getInfo (scripted (wdStatus 404)) (Some ''Q472'') (wdStatus 404 # script, [])
     = (Inr None, (script, [WikidataGet (entityUrl ''Q472'')]))"
  by (simp add: getInfo_Q getInfo_loop_scripted MAX_RETRY_ATTEMPTS_def getInfo_try_def wdStatus_def
      response_ok_def)

text \<open>Three connection resets end in the error message for that code.\<close>

lemma getInfo_connReset:
  "fst (getInfo (scripted (wdStatus 404)) (Some ''Q472'')
         ([FetchThrows connReset, FetchThrows connReset, FetchThrows connReset], []))
     = Inl (Error (getNetworkErrorMessage (Some ''ECONNRESET'') @ '' (after 3 attempts)''))"
  by (simp add: getInfo_Q getInfo_loop_scripted MAX_RETRY_ATTEMPTS_def getInfo_try_def
      getInfo_catch_def connReset_def retryDelay_def INITIAL_RETRY_DELAY_def
      string_of_nat.simps digit_char_def)

text \<open>
  C2 (the code departs from the claim). An error that is neither a timeout nor one of
  the three network codes reaches the end of the \<open>catch\<close> block, which rethrows it only on
  the last attempt: on an earlier attempt the loop goes on to the next request, without a
  delay. With a first request that throws a TypeError and a second that answers 200,
  \<open>getInfo\<close> sends two requests and returns the entity; the error is not propagated.
\<close>

theorem getInfo_retries_other_errors:
  "getInfo (scripted (wdStatus 404)) (Some ''Q472'')
       ([FetchThrows typeError, FetchResponse 200 (WdEntity sofiaInfo)], [])
     = (Inr (Some sofiaInfo),
        ([], [WikidataGet (entityUrl ''Q472''), WikidataGet (entityUrl ''Q472'')]))"
  by (simp add: getInfo_Q getInfo_loop_scripted MAX_RETRY_ATTEMPTS_def getInfo_try_def
      getInfo_catch_def typeError_def response_ok_def)

text \<open>Three answers with status 503 use up the attempts and give null, not an error.\<close>

lemma getInfo_503_exhausted:
  "getInfo (scripted (wdStatus 404)) (Some ''Q472'') ([wdStatus 503, wdStatus 503, wdStatus 503], [])
     = (Inr None,
        ([], [WikidataGet (entityUrl ''Q472''), Sleep 1000, WikidataGet (entityUrl ''Q472''),
              Sleep 2000, WikidataGet (entityUrl ''Q472'')]))"
  by (simp add: getInfo_Q getInfo_loop_scripted MAX_RETRY_ATTEMPTS_def getInfo_try_def wdStatus_def
      response_ok_def retryDelay_def INITIAL_RETRY_DELAY_def)

section \<open>Properties of the pipeline\<close>

subsection \<open>The images of a merged record\<close>

lemma map_filter_keep_truthy_Some:
  "List.map_filter keep_truthy (map Some xs) = filter (\<lambda>u. u \<noteq> []) xs"
  by (induction xs) (simp_all add: List.map_filter_simps keep_truthy_def truthy_def)

lemma map_filter_keep_truthy_entry:
  "List.map_filter keep_truthy (v # vs) = filter (\<lambda>u. u \<noteq> []) (entry v) @ List.map_filter keep_truthy vs"
  by (cases v) (simp_all add: List.map_filter_simps keep_truthy_def truthy_def entry_def)

lemma mergeImages_filter:
  "mergeImages wikipediaData' wikidataData' =
     filter (\<lambda>u. u \<noteq> [])
       (entry (Option.bind wikipediaData' wp_image) @ entry (Option.bind wikipediaData' wp_thumbnail)
        @ imageList wikidataData')"
  unfolding mergeImages_def imageList_def append_Cons append_Nil
    map_filter_keep_truthy_entry map_filter_keep_truthy_Some
  by simp

text \<open>
  C9 (the claim as stated fails). Nothing removes duplicates from the images: a summary
  whose thumbnail is its original image gives that address twice.
\<close>

theorem mergeImages_keeps_duplicates:
  "mergeImages (Some smallImageSummary) None
     = [''https://upload.wikimedia.org/wikipedia/commons/b/b1/Bankya.jpg'',
        ''https://upload.wikimedia.org/wikipedia/commons/b/b1/Bankya.jpg'']
   \<and> \<not> distinct (mergeImages (Some smallImageSummary) None)"
  by (simp add: mergeImages_filter entry_def imageList_def smallImageSummary_def)

text \<open>
  C9 (amended). In both servers the images of a merged record are, in this order, the
  Wikipedia image, the Wikipedia thumbnail and the Wikidata images, each kept when it is
  not empty and as often as it occurs; no entry is the empty string.
\<close>

theorem images_concatenation:
  "images (mergeLocation env osmData wikipediaData' wikidataData' now)
     = mergeImages wikipediaData' wikidataData'
   \<and> images (mergeCity env osmData wikipediaData' wikidataData' now)
     = mergeImages wikipediaData' wikidataData'
   \<and> mergeImages wikipediaData' wikidataData' =
       filter (\<lambda>u. u \<noteq> [])
         (entry (Option.bind wikipediaData' wp_image)
          @ entry (Option.bind wikipediaData' wp_thumbnail)
          @ imageList wikidataData')
   \<and> [] \<notin> set (mergeImages wikipediaData' wikidataData')"
  by (simp add: mergeLocation_def mergeCity_def mergeImages_filter)

subsection \<open>Rounding to double precision\<close>






















subsection \<open>Enrichment\<close>




lemma enrichLocationData_coordinates:
  "l_lat (fst (enrichLocationData env osmData s)) = o_lat osmData
   \<and> l_lon (fst (enrichLocationData env osmData s)) = o_lon osmData
   \<and> l_osmId (fst (enrichLocationData env osmData s)) = osmId osmData"
  by (simp add: enrichLocationData_def mergeLocation_def split: prod.splits)

text \<open>
  In the locations server what a service throws is absorbed: the feature is merged as if
  the service had returned nothing.
\<close>

lemma fetchWikipedia_absorbs:
  "wikipedia osmData = Some tag \<Longrightarrow> tag \<noteq> []
   \<Longrightarrow> wikipediaService_getInfo env tag (world s) = (Inl e, w1)
   \<Longrightarrow> fetchWikipedia env osmData s = (None, s\<lparr>world := w1, trace := trace s @ [WikipediaCall tag]\<rparr>)"
  by (simp add: fetchWikipedia_def if_truthy_def callWikipedia_def)

lemma fetchWikidata_absorbs:
  "wikidata osmData = Some qid \<Longrightarrow> qid \<noteq> []
   \<Longrightarrow> wikidataService_getInfo env qid (world s) = (Inl e, w1)
   \<Longrightarrow> fetchWikidata env osmData s = (None, s\<lparr>world := w1, trace := trace s @ [WikidataCall qid]\<rparr>)"
  by (simp add: fetchWikidata_def if_truthy_def callWikidata_def)

lemma blankTrim_Sofia: "blankTrim ''Sofia'' = ''Sofia''"
  by (simp add: blankTrim_def)

text \<open>
  C3 (the code departs from the claim). In \<open>searchCity\<close> the Wikipedia call is not
  inside a \<open>try\<close>. With an empty cache, one feature that carries a Wikipedia tag and a
  Wikipedia service that times out, \<open>searchCity\<close> throws the timeout error after the cache
  query, the Overpass call and the Wikipedia call: the Wikidata service, the validator and
  the store are not reached.
\<close>

theorem searchCity_aborts_on_wikipedia_failure:
  "searchCity (testEnv [sofiaItem]) (Some ''Sofia'') emptyStore
     = (Inl (Error ''Wikipedia API timeout''),
        emptyStore\<lparr>trace := [StoreWhere ''cities'' ''Sofia'' None True,
                              OverpassCall (SearchByName ''Sofia'' None),
                              WikipediaCall ''bg:Sofia'']\<rparr>)"
  by (simp add: searchCity_def if_truthy_def testEnv_def blankTrim_Sofia storeWhere_def
      emptyStore_def CITY_COLLECTION_NAME_def searchCity_fresh_def callOverpass_def
      callWikipedia_def sofiaItem_def Let_def)

subsection \<open>Cache hits\<close>

lemma if_truthy_Some: "nm \<noteq> [] \<Longrightarrow> if_truthy (Some nm) f d = f nm"
  by (simp add: if_truthy_def)


lemma blankTrim_Sofia': "trim (testEnv fs) ''Sofia'' = ''Sofia''"
  by (simp add: testEnv_def blankTrim_def)

lemma testEnv_fetchWikipedia_Sofia:
  "fetchWikipedia (testEnv fs) sofiaItem s
     = (None, s\<lparr>world := world s, trace := trace s @ [WikipediaCall ''bg:Sofia'']\<rparr>)"
  by (rule fetchWikipedia_absorbs [where e = "Error ''Wikipedia API timeout''"])
     (simp_all add: sofiaItem_def testEnv_def)

lemma testEnv_fetchWikidata_Sofia:
  "fetchWikidata (testEnv fs) sofiaItem s
     = (Some sofiaInfo, s\<lparr>world := world s, trace := trace s @ [WikidataCall ''Q472'']\<rparr>)"
  by (simp add: fetchWikidata_def if_truthy_def callWikidata_def sofiaItem_def testEnv_def)

lemma testEnv_valid: "valid (validateLocationData (testEnv fs) e)"
  by (simp add: testEnv_def)

lemma testEnv_storeAdd:
  "storeAdd (testEnv fs) c e s
     = (''doc'' @ string_of_nat (world s),
        s\<lparr>world := world s + 1, firestore := (firestore s)(c := firestore s c @ [(''doc'' @ string_of_nat (world s), e)]),
          trace := trace s @ [StoreAdd c e]\<rparr>)"
  by (simp add: storeAdd_def testEnv_def)

lemma testEnv_queryOverpass:
  "queryOverpass (testEnv fs) nm None None s
     = (Inr fs, s\<lparr>world := world s, trace := trace s @ [OverpassCall (SearchByName nm None)]\<rparr>)"
  by (simp add: queryOverpass_def truthy_def callOverpass_def testEnv_def)

lemma string_of_nat_digits: "string_of_nat 0 = ''0''" "string_of_nat (Suc 0) = ''1''"
  by (simp_all add: string_of_nat.simps digit_char_def)

lemma sofiaItem_cities: "collectionRef (getCollectionForType (o_type sofiaItem)) = Inr ''cities''"
  by (simp add: sofiaItem_def getCollectionForType_def LOCATION_TYPE_TO_CATEGORY_def
      collectionRef_def)

lemma selectCollection_default: "collectionRef (selectCollection None None) = Inr ''locations''"
  by (simp add: selectCollection_def if_truthy_def COLLECTION_NAME_def collectionRef_def)







text \<open>
  A type that names an inherited property selects no collection: the store refuses the
  value and both searches throw before any query.
\<close>

lemma search_inherited_type_throws:
  "nm \<noteq> [] \<Longrightarrow>
   searchLocation env (Some nm) (Some ''constructor'') category s = (Inl invalidResourcePath, s)
   \<and> searchAllLocations env (Some nm) (Some ''constructor'') category s
       = (Inl invalidResourcePath, s)"
  by (simp add: searchLocation_def searchAllLocations_def if_truthy_def Let_def
      selectCollection_def getCollectionForType_def LOCATION_TYPE_TO_CATEGORY_def
      objectPrototypeKeys_def collectionRef_def)

subsection \<open>Duplicates in searchAllLocations\<close>



lemma isDuplicate_iff:
  "isDuplicate results osmData =
     (\<exists>r \<in> set results. closeBy (l_lat (data r)) (o_lat osmData)
                          \<and> closeBy (l_lon (data r)) (o_lon osmData))"
  by (simp add: isDuplicate_def list_ex_iff)


lemma processOsmResults_duplicate:
  "isDuplicate results osmData
   \<Longrightarrow> processOsmResults env (osmData # rest) results t = processOsmResults env rest results t"
  by simp

lemma processOsmResults_distinct:
  assumes "\<not> isDuplicate results osmData"
  shows "processOsmResults env (osmData # rest) results t =
     (let enrichedData = fst (enrichLocationData env osmData t);
          s2 = snd (validate env enrichedData (snd (enrichLocationData env osmData t)))
      in if \<not> valid (validateLocationData env enrichedData)
         then processOsmResults env rest results s2
         else (case collectionRef (getCollectionForType (o_type osmData)) of
                 Inl error \<Rightarrow> (Inl error, s2)
               | Inr c \<Rightarrow>
                   processOsmResults env rest
                     (results @ [\<lparr>data = enrichedData, doc_id = fst (storeAdd env c enrichedData s2),
                                   collection = Some c\<rparr>])
                     (snd (storeAdd env c enrichedData s2))))"
  using assms
  by (simp add: Let_def validate_def split: prod.splits sum.splits)














subsection \<open>getLocationById\<close>

text \<open>With a collection argument only that collection is read.\<close>

lemma getLocationById_in_collection:
  "c \<noteq> [] \<Longrightarrow>
   getLocationById locationId (Some c) s =
     (case map_of (firestore s c) locationId of
        None \<Rightarrow> Inl (Error (''Location with ID '' @ [dquote] @ locationId @ [dquote]
                          @ '' not found in '' @ c))
      | Some d \<Rightarrow> Inr \<lparr>data = d, doc_id = locationId, collection = Some c\<rparr>,
      s\<lparr>trace := trace s @ [StoreDocGet c locationId]\<rparr>)"
  by (simp add: getLocationById_def if_truthy_def storeDocGet_def split: option.splits)

text \<open>Without one, the collections of the list are read in order up to the first hit.\<close>

lemma probeCollections_found:
  "map_of (firestore s c) locationId = Some d
   \<Longrightarrow> \<forall>c' \<in> set before. map_of (firestore s c') locationId = None
   \<Longrightarrow> fst (probeCollections (before @ c # after) locationId s)
       = Inr \<lparr>data = d, doc_id = locationId, collection = Some c\<rparr>"
proof (induction before arbitrary: s)
  case Nil
  then show ?case
    by (simp add: storeDocGet_def)
next
  case (Cons b before)
  have "firestore (s\<lparr>trace := trace s @ [StoreDocGet b locationId]\<rparr>) = firestore s"
    by simp
  with Cons show ?case
    by (simp add: storeDocGet_def)
qed

lemma probeCollections_missing:
  "\<forall>c \<in> set cs. map_of (firestore s c) locationId = None
   \<Longrightarrow> probeCollections cs locationId s
       = (Inl (Error (''Location with ID '' @ [dquote] @ locationId @ [dquote] @ '' not found'')),
          s\<lparr>trace := trace s @ map (\<lambda>c. StoreDocGet c locationId) cs\<rparr>)"
proof (induction cs arbitrary: s)
  case Nil
  then show ?case by simp
next
  case (Cons c cs)
  have "firestore (s\<lparr>trace := trace s @ [StoreDocGet c locationId]\<rparr>) = firestore s"
    by simp
  with Cons show ?case
    by (simp add: storeDocGet_def)
qed

lemma peaks_not_probed: "PEAKS \<in> set spec_collections \<and> PEAKS \<notin> set probedCollections"
  by (simp add: spec_collections_def probedCollections_def PEAKS_def CITIES_def MOUNTAINS_def
      NATURAL_SITES_def CULTURAL_SITES_def)

text \<open>
  C8 (the code departs from the claim). The list that \<open>getLocationById\<close> probes has
  four collections: \<open>peaks\<close> is missing from it. A document stored in the peaks
  collection is found when the collection is named and is reported as not found when it
  is not, after reads of cities, mountains, natural_sites and cultural_sites.
\<close>

theorem getLocationById_misses_peaks:
  "getLocationById ''abc123'' None (storeWith ''peaks'' ''abc123'' (storedLocation ''Musala'' ''peak''))
     = (Inl (Error (''Location with ID '' @ [dquote] @ ''abc123'' @ [dquote] @ '' not found'')),
        (storeWith ''peaks'' ''abc123'' (storedLocation ''Musala'' ''peak''))
          \<lparr>trace := [StoreDocGet ''cities'' ''abc123'', StoreDocGet ''mountains'' ''abc123'',
                      StoreDocGet ''natural_sites'' ''abc123'',
                      StoreDocGet ''cultural_sites'' ''abc123'']\<rparr>)
   \<and> fst (getLocationById ''abc123'' (Some ''peaks'')
            (storeWith ''peaks'' ''abc123'' (storedLocation ''Musala'' ''peak'')))
     = Inr \<lparr>data = storedLocation ''Musala'' ''peak'', doc_id = ''abc123'',
             collection = Some ''peaks''\<rparr>"
proof
  let ?s = "storeWith ''peaks'' ''abc123'' (storedLocation ''Musala'' ''peak'')"
  have none: "\<forall>c \<in> set probedCollections. map_of (firestore ?s c) ''abc123'' = None"
    by (simp add: probedCollections_def storeWith_def CITIES_def MOUNTAINS_def
        NATURAL_SITES_def CULTURAL_SITES_def)
  have "getLocationById ''abc123'' None ?s = probeCollections probedCollections ''abc123'' ?s"
    by (simp add: getLocationById_def if_truthy_def)
  also have "\<dots> = (Inl (Error (''Location with ID '' @ [dquote] @ ''abc123'' @ [dquote] @ '' not found'')),
          ?s\<lparr>trace := trace ?s @ map (\<lambda>c. StoreDocGet c ''abc123'') probedCollections\<rparr>)"
    using none by (rule probeCollections_missing)
  also have "trace ?s @ map (\<lambda>c. StoreDocGet c ''abc123'') probedCollections
       = [StoreDocGet ''cities'' ''abc123'', StoreDocGet ''mountains'' ''abc123'',
          StoreDocGet ''natural_sites'' ''abc123'', StoreDocGet ''cultural_sites'' ''abc123'']"
    by (simp add: probedCollections_def storeWith_def CITIES_def MOUNTAINS_def
        NATURAL_SITES_def CULTURAL_SITES_def)
  finally show "getLocationById ''abc123'' None ?s
     = (Inl (Error (''Location with ID '' @ [dquote] @ ''abc123'' @ [dquote] @ '' not found'')),
        ?s\<lparr>trace := [StoreDocGet ''cities'' ''abc123'', StoreDocGet ''mountains'' ''abc123'',
                      StoreDocGet ''natural_sites'' ''abc123'',
                      StoreDocGet ''cultural_sites'' ''abc123'']\<rparr>)" .
  show "fst (getLocationById ''abc123'' (Some ''peaks'') ?s)
     = Inr \<lparr>data = storedLocation ''Musala'' ''peak'', doc_id = ''abc123'',
             collection = Some ''peaks''\<rparr>"
    by (simp add: getLocationById_in_collection storeWith_def)
qed

subsection \<open>The locations server on the input that stops searchCity\<close>

text \<open>
  With the same feature and the same failing Wikipedia service \<open>searchLocation\<close> of the
  locations server completes: the failure is absorbed, the Wikidata data is merged, and
  the record is validated and stored.
\<close>

lemma searchLocation_survives_wikipedia_failure:
  "map_sum id (\<lambda>r. (doc_id r, collection r, description (data r)))
       (fst (searchLocation (testEnv [sofiaItem]) (Some ''Sofia'') None None emptyStore))
     = Inr (''doc0'', Some ''cities'', Some ''capital of Bulgaria'')
   \<and> map eventKind
       (trace (snd (searchLocation (testEnv [sofiaItem]) (Some ''Sofia'') None None emptyStore)))
     = [''where'', ''overpass'', ''wikipedia'', ''wikidata'', ''validate'', ''add'']"
proof -
  have q: "storeWhere ''locations'' ''Sofia'' (typeFilter None) True emptyStore
             = ([], emptyStore\<lparr>trace := [StoreWhere ''locations'' ''Sofia'' None True]\<rparr>)"
    by (simp add: storeWhere_def emptyStore_def if_truthy_def typeFilter_def)
  have d: "description (mergeLocation e sofiaItem None (Some sofiaInfo) t) = Some ''capital of Bulgaria''"
    for e :: "nat env" and t
    by (simp add: mergeLocation_def keep_truthy_def or_else_def truthy_def sofiaInfo_def)
  have w0: "world emptyStore = 0" "trace emptyStore = []"
    by (simp_all add: emptyStore_def)
  show ?thesis
    by (simp add: searchLocation_def if_truthy_Some blankTrim_Sofia' selectCollection_default q
        Let_def resolveFresh_def testEnv_queryOverpass sofiaItem_cities enrichLocationData_def
        testEnv_fetchWikipedia_Sofia testEnv_fetchWikidata_Sofia validate_def testEnv_valid
        testEnv_storeAdd d w0 string_of_nat_digits)
qed

subsection \<open>The results of one call lie apart\<close>

lemma processOsmResults_far_apart:
  "sorted_wrt (\<lambda>a b. \<not> nearBoth a b) results
   \<Longrightarrow> sorted_wrt (\<lambda>a b. \<not> nearBoth a b)
         (returnedList (fst (processOsmResults env osmResults results s)))"
proof (induction osmResults arbitrary: results s)
  case Nil
  then show ?case by (simp add: returnedList_def)
next
  case (Cons osmData rest)
  show ?case
  proof (cases "isDuplicate results osmData")
    case True
    with Cons show ?thesis
      by (simp add: processOsmResults_duplicate)
  next
    case False
    let ?e = "fst (enrichLocationData env osmData s)"
    let ?s2 = "snd (validate env ?e (snd (enrichLocationData env osmData s)))"
    have skipped: "sorted_wrt (\<lambda>a b. \<not> nearBoth a b)
                     (returnedList (fst (processOsmResults env rest results ?s2)))"
      using Cons.prems by (rule Cons.IH)
    have stored: "sorted_wrt (\<lambda>a b. \<not> nearBoth a b)
                    (returnedList (fst (processOsmResults env rest
                       (results @ [\<lparr>data = ?e, doc_id = i, collection = Some c\<rparr>]) u)))"
      for i c u
    proof -
      have "\<forall>a \<in> set results. \<not> nearBoth a \<lparr>data = ?e, doc_id = i, collection = Some c\<rparr>"
        using False
        by (auto simp: isDuplicate_iff nearBoth_def enrichLocationData_coordinates)
      with Cons.prems
      have "sorted_wrt (\<lambda>a b. \<not> nearBoth a b)
              (results @ [\<lparr>data = ?e, doc_id = i, collection = Some c\<rparr>])"
        by (simp add: sorted_wrt_append)
      then show ?thesis
        by (rule Cons.IH)
    qed
    note unfold = processOsmResults_distinct [OF False, unfolded Let_def]
    show ?thesis
    proof (cases "valid (validateLocationData env ?e)")
      case False
      then show ?thesis
        unfolding unfold using skipped by simp
    next
      case True
      show ?thesis
      proof (cases "collectionRef (getCollectionForType (o_type osmData))")
        case (Inl error)
        with True show ?thesis
          unfolding unfold by (simp add: returnedList_def)
      next
        case (Inr c)
        with True show ?thesis
          unfolding unfold using stored by simp
      qed
    qed
  qed
qed

text \<open>
  No two results that a cache miss of \<open>searchAllLocations\<close> returns are duplicates of
  each other by the test of the loop: of two such features only the earlier one is stored.
\<close>

lemma searchAllLocations_far_apart:
  "sorted_wrt (\<lambda>a b. \<not> nearBoth a b)
     (returnedList (fst (processOsmResults env osmResults [] s)))"
  by (rule processOsmResults_far_apart) simp


end
